theory Spec2Isabelle
  imports Main "HOL-Library.Word" "HOL-Library.Sublist"
begin

section \<open>pgmetrics command line front-end (cmd/pgmetrics/main.go)\<close>

text \<open>
  The program is a sequence of effects: it prints to the standard streams, opens and
  creates files, starts a pager subprocess and terminates through \<^verbatim>\<open>os.Exit\<close>.
  A run is modelled as the list of events it performs, in order, together with the way
  it ends: \<open>Exit c\<close> for \<^verbatim>\<open>os.Exit(c)\<close>, \<open>Return x\<close> when the function returns
  \<open>x\<close> to its caller. Everything the program reads from outside (environment, search
  path, file system, subprocess, the packages it imports) is a field of the record
  \<open>world\<close>, so every theorem holds for every behaviour of the outside.
\<close>

subsection \<open>Data\<close>

text \<open>The fields of \<^verbatim>\<open>collector.CollectConfig\<close> that this file reads or writes.
  Go's \<^verbatim>\<open>uint\<close> is taken at 64 bits, \<^verbatim>\<open>uint16\<close> at 16.\<close>

record CollectConfig =
  TimeoutSec :: "64 word"
  LockTimeoutMillisec :: "64 word"
  Schema :: string
  ExclSchema :: string
  Table :: string
  ExclTable :: string
  Omit :: "string list"
  Host :: string
  Port :: "16 word"
  User :: string
  Password :: string
  UseExtendedQP :: bool

text \<open>\<^verbatim>\<open>type options struct\<close>. The fields \<^verbatim>\<open>help\<close> and \<^verbatim>\<open>output\<close> carry a suffix
  because both words are reserved in Isabelle.\<close>

record options =
  CollectConfig :: CollectConfig
  input :: string
  help_opt :: string
  helpShort :: bool
  version :: bool
  format :: string
  output_opt :: string
  tooLongSec :: "64 word"
  nopager :: bool
  passNone :: bool
  queryProto :: string

text \<open>\<^verbatim>\<open>pgmetrics.Model\<close>: opaque here but for the user agent that \<^verbatim>\<open>main\<close> sets.\<close>

record Model =
  UserAgent :: string
  content :: string

text \<open>The \<^verbatim>\<open>io.Writer\<close> values of the program.\<close>

datatype writer = OsStdout | OsStderr | PagerStdin string | FileW string

datatype encoder = JSON | CSV | Human

datatype event =
    Write writer string
  | Encode encoder writer
  | Command string
  | StdinPipe string
  | Start string
  | Wait string "string option"
  | Create string
  | Open string
  | Close writer
  | CloseInput string
  | ReadPassword

datatype 'a outcome = Exit int | Return 'a

type_synonym 'a run = "event list \<times> 'a outcome"

text \<open>What the program reads from outside. An error is the text of its
  \<^verbatim>\<open>Error()\<close>; \<open>None\<close> in a \<open>string option\<close> is Go's \<^verbatim>\<open>nil\<close> error.\<close>

record world =
  environ :: "string \<rightharpoonup> string"
  lookPath :: "string \<Rightarrow> bool"
  stdoutIsTerminal :: bool
  compilePOSIX :: "string \<Rightarrow> string option"
  cmdStdinPipe :: "string \<Rightarrow> string option"
  cmdStart :: "string \<Rightarrow> string option"
  cmdWait :: "string \<Rightarrow> string option"
  osCreate :: "string \<Rightarrow> string option"
  osOpen :: "string \<Rightarrow> string option"
  jsonDecode :: "string \<Rightarrow> string + Model"
  jsonEncode :: "writer \<Rightarrow> Model \<Rightarrow> string + string"
  model2csv :: "writer \<Rightarrow> Model \<Rightarrow> string + string"
  writeHumanTo :: "writer \<Rightarrow> options \<Rightarrow> Model \<Rightarrow> string + string"
  readPassword :: "string + string"
  collect :: "CollectConfig \<Rightarrow> string list \<Rightarrow> string + Model"
  defaultCollectConfig :: CollectConfig
  versionVar :: string

text \<open>
  \<^item> \<open>lookPath w p\<close>: \<^verbatim>\<open>exec.LookPath(p)\<close> returns no error.
  \<^item> \<open>compilePOSIX w r\<close>: the error of \<^verbatim>\<open>regexp.CompilePOSIX(r)\<close>.
  \<^item> \<open>jsonEncode w fd m\<close>: \<^verbatim>\<open>json.NewEncoder(fd).Encode(m)\<close> with two-space indent,
    the error or the bytes written.
  \<^item> \<open>model2csv w fd m\<close>: the function \<^verbatim>\<open>model2csv\<close> of this package (another file),
    the error or the bytes that \<^verbatim>\<open>Flush\<close> leaves in \<open>fd\<close>.
  \<^item> \<open>writeHumanTo w fd opts m\<close>: the function \<^verbatim>\<open>writeHumanTo\<close> of this package
    (another file), an error or the bytes written; see \<open>callWriteHumanTo\<close>.
  \<^item> \<open>collect w cfg args\<close>: \<^verbatim>\<open>collector.Collect\<close>, an error or the report; see
    \<open>callCollect\<close>.
  \<^item> \<open>versionVar w\<close>: the package variable \<^verbatim>\<open>version\<close>, set during build.
\<close>

subsection \<open>Texts\<close>

definition tryText :: string where
  \<open>tryText = ''Try "pgmetrics --help" for more information.\<newline>''\<close>

definition usage1 :: string where
  \<open>usage1 = concat
    [''pgmetrics collects PostgreSQL information and metrics.\<newline>'',
     ''\<newline>'',
     ''Usage:\<newline>'',
     ''  pgmetrics [OPTION]... [DBNAME]\<newline>'',
     ''\<newline>'',
     ''General options:\<newline>'',
     ''  -t, --timeout=SECS           individual query timeout in seconds (default: 5)\<newline>'',
     ''      --lock-timeout=MILLIS    lock timeout in milliseconds (default: 50)\<newline>'',
     ''  -i, --input=FILE             don't connect to db, instead read and display\<newline>'',
     ''                                   this previously saved JSON file\<newline>'',
     ''  -V, --version                output version information, then exit\<newline>'',
     ''  -?, --help[=options]         show this help, then exit\<newline>'',
     ''      --help=variables         list environment variables, then exit\<newline>'',
     ''\<newline>'',
     ''Collection options:\<newline>'',
     ''  -S, --no-sizes               don't collect tablespace and relation sizes\<newline>'',
     ''  -c, --schema=REGEXP          collect only from schema(s) matching POSIX regexp\<newline>'',
     ''  -C, --exclude-schema=REGEXP  do NOT collect from schema(s) matching POSIX regexp\<newline>'',
     ''  -a, --table=REGEXP           collect only from table(s) matching POSIX regexp\<newline>'',
     ''  -A, --exclude-table=REGEXP   do NOT collect from table(s) matching POSIX regexp\<newline>'',
     ''      --omit=WHAT              do NOT collect the items specified as a comma-separated\<newline>'',
     ''                                   list of: "tables", "indexes", "sequences",\<newline>'',
     ''                                   "functions", "extensions", "triggers",\<newline>'',
     ''                                   "statements", "log", "citus", "indexdefs",\<newline>'',
     ''                                   "bloat"\<newline>'',
     ''      --sql-length=LIMIT       collect only first LIMIT characters of all SQL\<newline>'',
     ''                                   queries (default: 500)\<newline>'',
     ''      --statements-limit=LIMIT collect only utmost LIMIT number of row from\<newline>'',
     ''                                   pg_stat_statements (default: 100)\<newline>'',
     ''      --query-proto=PROTO      which query wire protocol to use; "simple" or\<newline>'',
     ''                                   "extended" (default: "simple")\<newline>'',
     ''      --only-listed            collect info only from the databases listed as\<newline>'',
     ''                                   command-line args (use with Heroku)\<newline>'',
     ''      --all-dbs                collect info from all user databases\<newline>'',
     ''      --log-file               location of PostgreSQL log file\<newline>'',
     ''      --log-dir                read all the PostgreSQL log files in this directory\<newline>'',
     ''      --log-span=MINS          examine the last MINS minutes of logs (default: 5)\<newline>'',
     ''      --aws-rds-dbid           AWS RDS/Aurora database instance identifier\<newline>'',
     ''      --az-resource            Azure resource ID\<newline>'',
     ''      --pgpool                 collect only Pgpool metrics\<newline>'',
     ''\<newline>'',
     ''Output options:\<newline>'',
     ''  -f, --format=FORMAT          output format; "human", "json" or "csv" (default: "human")\<newline>'',
     ''  -l, --toolong=SECS           for human output, transactions running longer than\<newline>'',
     ''                                   this are considered too long (default: 60)\<newline>'',
     ''  -o, --output=FILE            write output to the specified file\<newline>'',
     ''      --no-pager               do not invoke the pager for tty output\<newline>'',
     ''\<newline>'',
     ''Connection options:\<newline>'',
     ''  -h, --host=HOSTNAME          database server host or socket directory\<newline>'',
     ''                                   (default: "'']\<close>

definition usage2 :: string where
  \<open>usage2 = concat
    [''")\<newline>'',
     ''  -p, --port=PORT              database server port (default: '']\<close>

definition usage3 :: string where
  \<open>usage3 = concat
    ['')\<newline>'',
     ''  -U, --username=USERNAME      database user name (default: "'']\<close>

definition usage4 :: string where
  \<open>usage4 = concat
    [''")\<newline>'',
     ''  -w, --no-password            never prompt for password\<newline>'',
     ''      --role=ROLE              do SET ROLE before collection\<newline>'',
     ''\<newline>'',
     ''For more information, visit <https://pgmetrics.io>.\<newline>'']\<close>

definition variables :: string where
  \<open>variables = concat
    [''Environment variables:\<newline>'',
     ''Usage:\<newline>'',
     ''  NAME=VALUE [NAME=VALUE] pgmetrics ...\<newline>'',
     ''\<newline>'',
     ''  PAGER              name of external pager program\<newline>'',
     ''  PGAPPNAME          the application_name connection parameter\<newline>'',
     ''  PGDATABASE         the dbname connection parameter\<newline>'',
     ''  PGHOST             the host connection parameter\<newline>'',
     ''  PGPORT             the port connection parameter\<newline>'',
     ''  PGUSER             the user connection parameter\<newline>'',
     ''  PGPASSWORD         connection password (not recommended)\<newline>'',
     ''  PGPASSFILE         path to the pgpass password file\<newline>'',
     ''  PGSSLMODE          "disable", "require", "verify-ca", "verify-full"\<newline>'',
     ''  PGSSLCERT          path to client SSL certificate\<newline>'',
     ''  PGSSLKEY           path to secret key for client SSL certificate\<newline>'',
     ''  PGSSLROOTCERT      path to SSL root CA\<newline>'',
     ''  PGCONNECT_TIMEOUT  connection timeout in seconds\<newline>'',
     ''\<newline>'',
     ''Also, the following libpq-related environment variarables are not\<newline>'',
     ''required/used by pgmetrics and are IGNORED:\<newline>'',
     ''\<newline>'',
     ''  PGHOSTADDR, PGSERVICE,     PGSERVICEFILE, PGREALM,  PGREQUIRESSL,\<newline>'',
     ''  PGSSLCRL,   PGREQUIREPEER, PGKRBSRVNAME,  PGGSSLIB, PGSYSCONFDIR,\<newline>'',
     ''  PGLOCALEDIR\<newline>'',
     ''\<newline>'',
     ''The following AWS-related environment variables are understood. For\<newline>'',
     ''more details about these refer to the AWS documentation.\<newline>'',
     ''\<newline>'',
     ''  AWS_ACCESS_KEY_ID,   AWS_SECRET_ACCESS_KEY, AWS_REGION,\<newline>'',
     ''  AWS_ACCESS_KEY,      AWS_SECRET_KEY,        AWS_SESSION_TOKEN,\<newline>'',
     ''  AWS_DEFAULT_REGION,  AWS_PROFILE,           AWS_DEFAULT_PROFILE,\<newline>'',
     ''  AWS_SDK_LOAD_CONFIG, AWS_SHARED_CREDENTIALS_FILE,\<newline>'',
     ''  AWS_CONFIG_FILE,     AWS_CA_BUNDLE\<newline>'',
     ''\<newline>'',
     ''The following Azure-related environment variables are understood. For\<newline>'',
     ''more details about these refer to the Azure documentation.\<newline>'',
     ''\<newline>'',
     ''  AZURE_CLIENT_ID,   AZURE_TENANT_ID,   AZURE_CLIENT_SECRET,\<newline>'',
     ''  AZURE_USERNAME,    AZURE_PASSWORD,    AZURE_CLIENT_CERTIFICATE_PATH\<newline>'']\<close>

text \<open>The diagnostics of \<^verbatim>\<open>options.parse\<close>, as \<^verbatim>\<open>Fprintln\<close> and \<^verbatim>\<open>Fprintf\<close>
  write them.\<close>

definition formatMsg :: string where
  \<open>formatMsg = ''option -f/--format must be "human", "json" or "csv"\<newline>''\<close>

definition portMsg :: string where
  "portMsg = ''port must be between 1 and 65535\<newline>''"

definition timeoutMsg :: string where
  "timeoutMsg = ''timeout must be greater than 0\<newline>''"

definition lockTimeoutMsg :: string where
  "lockTimeoutMsg = ''lock-timeout must be greater than 0\<newline>''"

definition schemaMsg :: "string \<Rightarrow> string" where
  "schemaMsg err = ''bad POSIX regular expression for -c/--schema: '' @ err @ ''\<newline>''"

definition exclSchemaMsg :: "string \<Rightarrow> string" where
  "exclSchemaMsg err =
     ''bad POSIX regular expression for -C/--exclude-schema: '' @ err @ ''\<newline>''"

definition tableMsg :: "string \<Rightarrow> string" where
  "tableMsg err = ''bad POSIX regular expression for -a/--table: '' @ err @ ''\<newline>''"

definition exclTableMsg :: "string \<Rightarrow> string" where
  "exclTableMsg err =
     ''bad POSIX regular expression for -A/--exclude-table: '' @ err @ ''\<newline>''"

definition omitMsg :: "string \<Rightarrow> string" where
  \<open>omitMsg om = ''unknown item "'' @ om @ ''" in --omit option\<newline>''\<close>

definition queryProtoMsg :: string where
  \<open>queryProtoMsg = ''option --query-proto must be "simple" or "extended"\<newline>''\<close>

text \<open>\<^verbatim>\<open>fmt.Println("pgmetrics", version)\<close>.\<close>

definition versionLine :: "string \<Rightarrow> string" where
  "versionLine v = ''pgmetrics '' @ v @ ''\<newline>''"

subsection \<open>Helpers of the model\<close>

text \<open>Sequencing: the second part runs only when the first returns.\<close>

definition bind_run :: "'a run \<Rightarrow> ('a \<Rightarrow> 'b run) \<Rightarrow> 'b run" where
  "bind_run m f =
     (case m of
        (es, Exit c) \<Rightarrow> (es, Exit c)
      | (es, Return x) \<Rightarrow> (case f x of (es', r) \<Rightarrow> (es @ es', r)))"

text \<open>The exit status of the process when a run is the whole of \<^verbatim>\<open>main\<close>:
  returning from \<^verbatim>\<open>main\<close> is status 0.\<close>

definition exitStatus :: "'a run \<Rightarrow> int" where
  "exitStatus r = (case snd r of Exit c \<Rightarrow> c | Return _ \<Rightarrow> 0)"

text \<open>\<^verbatim>\<open>os.Getenv\<close>: the empty string for a variable that is not set.\<close>

definition getenv :: "world \<Rightarrow> string \<Rightarrow> string" where
  "getenv w k = (case environ w k of None \<Rightarrow> [] | Some v \<Rightarrow> v)"

text \<open>\<^verbatim>\<open>%d\<close> of an unsigned integer.\<close>

function decimal :: "nat \<Rightarrow> string" where
  "decimal n =
     (if n < 10 then [''0123456789'' ! n]
      else decimal (n div 10) @ [''0123456789'' ! (n mod 10)])"
  by pat_completeness auto
termination
  by (relation "measure id") auto

declare decimal.simps [simp del]

text \<open>\<^verbatim>\<open>log.Fatal\<close> after \<^verbatim>\<open>log.SetFlags(0)\<close> and \<^verbatim>\<open>log.SetPrefix("pgmetrics: ")\<close>:
  one line on the error stream (the logger adds the newline that is missing), then
  \<^verbatim>\<open>os.Exit(1)\<close>.\<close>

definition logLine :: "string \<Rightarrow> string" where
  "logLine s =
     ''pgmetrics: '' @ s @ (if s = [] \<or> last s \<noteq> CHR 0x0A then ''\<newline>'' else [])"

definition logFatal :: "string \<Rightarrow> 'a run" where
  "logFatal s = ([Write OsStderr (logLine s)], Exit 1)"

subsection \<open>Option handling\<close>

text \<open>\<^verbatim>\<open>fmt.Fprintf(fp, usage, Host, Port, User)\<close>.\<close>

definition usageText :: "string \<Rightarrow> 16 word \<Rightarrow> string \<Rightarrow> string" where
  "usageText h p u = usage1 @ h @ usage2 @ decimal (unat p) @ usage3 @ u @ usage4"

definition usage :: "options \<Rightarrow> int \<Rightarrow> 'a run" where
  "usage opts code =
     (let fp = (if code \<noteq> 0 then OsStderr else OsStdout) in
      ((if helpShort opts \<or> code \<noteq> 0 \<or> help_opt opts = ''short'' then
          [Write fp (usageText (Host (CollectConfig opts)) (Port (CollectConfig opts))
                       (User (CollectConfig opts)))]
        else if help_opt opts = ''variables'' then [Write fp variables]
        else []),
       Exit code))"

definition printTry :: "event list" where
  "printTry = [Write OsStderr tryText]"

definition getRegexp :: "world \<Rightarrow> string \<Rightarrow> string option" where
  "getRegexp w r = (if length r > 0 then compilePOSIX w r else None)"

text \<open>The loop over \<^verbatim>\<open>o.CollectConfig.Omit\<close>.\<close>

fun omitLoop :: "string list \<Rightarrow> unit run" where
  "omitLoop [] = ([], Return ())"
| "omitLoop (om # oms) =
     (if om \<noteq> ''tables'' \<and> om \<noteq> ''indexes'' \<and> om \<noteq> ''sequences'' \<and>
         om \<noteq> ''functions'' \<and> om \<noteq> ''extensions'' \<and> om \<noteq> ''triggers'' \<and>
         om \<noteq> ''statements'' \<and> om \<noteq> ''log'' \<and> om \<noteq> ''citus'' \<and>
         om \<noteq> ''indexdefs'' \<and> om \<noteq> ''bloat''
      then (Write OsStderr (omitMsg om) # printTry, Exit 2)
      else omitLoop oms)"

text \<open>
  \<^verbatim>\<open>options.parse\<close>, from the line after \<^verbatim>\<open>s.Parse(os.Args)\<close>. The getopt package is
  not part of this file: \<open>opts0\<close> is the options value once \<^verbatim>\<open>s.Parse\<close> has stored
  the command line into it, \<open>seen\<close> is \<^verbatim>\<open>help.Seen()\<close> and \<open>rest\<close> is
  \<^verbatim>\<open>s.Args()\<close>. The result is the options value that the caller goes on with,
  and the remaining arguments.
\<close>

definition parse :: "world \<Rightarrow> options \<Rightarrow> bool \<Rightarrow> string list \<Rightarrow> (options \<times> string list) run" where
  \<open>parse w opts0 seen rest =
     (let opts = (if seen \<and> help_opt opts0 = '''' then opts0\<lparr>help_opt := ''short''\<rparr> else opts0);
          cfg = CollectConfig opts
      in
      if help_opt opts \<noteq> '''' \<and> help_opt opts \<noteq> ''short'' \<and> help_opt opts \<noteq> ''variables'' then
        (printTry, Exit 2)
      else if format opts \<noteq> ''human'' \<and> format opts \<noteq> ''json'' \<and> format opts \<noteq> ''csv'' then
        (Write OsStderr formatMsg # printTry, Exit 2)
      else if Port cfg = 0 then
        (Write OsStderr portMsg # printTry, Exit 2)
      else if TimeoutSec cfg = 0 then
        (Write OsStderr timeoutMsg # printTry, Exit 2)
      else if LockTimeoutMillisec cfg = 0 then
        (Write OsStderr lockTimeoutMsg # printTry, Exit 2)
      else
        (case getRegexp w (Schema cfg) of
           Some err \<Rightarrow>
             (Write OsStderr (schemaMsg err) # printTry, Exit 2)
         | None \<Rightarrow>
        (case getRegexp w (ExclSchema cfg) of
           Some err \<Rightarrow>
             (Write OsStderr (exclSchemaMsg err) # printTry, Exit 2)
         | None \<Rightarrow>
        (case getRegexp w (Table cfg) of
           Some err \<Rightarrow>
             (Write OsStderr (tableMsg err) # printTry, Exit 2)
         | None \<Rightarrow>
        (case getRegexp w (ExclTable cfg) of
           Some err \<Rightarrow>
             (Write OsStderr (exclTableMsg err) # printTry, Exit 2)
         | None \<Rightarrow>
        bind_run (omitLoop (Omit cfg)) (\<lambda>_.
          if queryProto opts \<noteq> ''simple'' \<and> queryProto opts \<noteq> ''extended'' then
            (Write OsStderr queryProtoMsg # printTry, Exit 2)
          else
            (let opts' = opts\<lparr>CollectConfig := cfg\<lparr>UseExtendedQP := (queryProto opts = ''extended'')\<rparr>\<rparr>
             in
             if helpShort opts' \<or> help_opt opts' = ''short'' \<or> help_opt opts' = ''variables'' then
               usage opts' 0
             else if version opts' then
               ([Write OsStdout (versionLine (if length (versionVar w) = 0 then ''devel''
                                              else versionVar w))], Exit 0)
             else ([], Return (opts', rest)))))))))\<close>

subsection \<open>Encoders and output routing\<close>

definition writeJSONTo :: "world \<Rightarrow> writer \<Rightarrow> Model \<Rightarrow> unit run" where
  "writeJSONTo w fd result =
     (case jsonEncode w fd result of
        Inl err \<Rightarrow> bind_run ([Encode JSON fd], Return ()) (\<lambda>_. logFatal err)
      | Inr bytes \<Rightarrow> ([Encode JSON fd, Write fd bytes], Return ()))"

definition writeCSVTo :: "world \<Rightarrow> writer \<Rightarrow> Model \<Rightarrow> unit run" where
  "writeCSVTo w fd result =
     (case model2csv w fd result of
        Inl err \<Rightarrow> bind_run ([Encode CSV fd], Return ()) (\<lambda>_. logFatal err)
      | Inr bytes \<Rightarrow> ([Encode CSV fd, Write fd bytes], Return ()))"

text \<open>Modelled from the spec: \<^verbatim>\<open>writeHumanTo\<close> is in another file of this package,
  and \<^verbatim>\<open>writeTo\<close> calls it with no error to look at. The spec says that a failure of
  the human renderer is fatal: the call either writes the bytes and returns, or ends the
  run as \<^verbatim>\<open>log.Fatal\<close> does.\<close>

definition callWriteHumanTo :: "world \<Rightarrow> writer \<Rightarrow> options \<Rightarrow> Model \<Rightarrow> unit run" where
  "callWriteHumanTo w fd opts result =
     (case writeHumanTo w fd opts result of
        Inl err \<Rightarrow> bind_run ([Encode Human fd], Return ()) (\<lambda>_. logFatal err)
      | Inr bytes \<Rightarrow> ([Encode Human fd, Write fd bytes], Return ()))"

definition writeTo :: "world \<Rightarrow> writer \<Rightarrow> options \<Rightarrow> Model \<Rightarrow> unit run" where
  "writeTo w fd opts result =
     (if format opts = ''json'' then writeJSONTo w fd result
      else if format opts = ''csv'' then writeCSVTo w fd result
      else callWriteHumanTo w fd opts result)"

text \<open>The lookup of the pager program at the head of \<^verbatim>\<open>process\<close>.\<close>

definition lookupPager :: "world \<Rightarrow> string" where
  "lookupPager w =
     (let pager = getenv w ''PAGER'' in
      if pager = '''' then
        (if lookPath w ''less'' then ''less''
         else if lookPath w ''more'' then ''more''
         else pager)
      else pager)"

definition process :: "world \<Rightarrow> Model \<Rightarrow> options \<Rightarrow> string list \<Rightarrow> unit run" where
  "process w result opts0 args =
     (let opts = (if output_opt opts0 = ''-'' then opts0\<lparr>output_opt := ''''\<rparr> else opts0);
          pager = lookupPager w;
          usePager = (output_opt opts = '''' \<and> \<not> nopager opts \<and> pager \<noteq> '''' \<and>
                      stdoutIsTerminal w)
      in
      if usePager then
        (case cmdStdinPipe w pager of
           Some err \<Rightarrow> bind_run ([Command pager], Return ()) (\<lambda>_. logFatal err)
         | None \<Rightarrow>
        (case cmdStart w pager of
           Some err \<Rightarrow>
             bind_run ([Command pager, StdinPipe pager], Return ()) (\<lambda>_. logFatal err)
         | None \<Rightarrow>
             bind_run ([Command pager, StdinPipe pager, Start pager], Return ()) (\<lambda>_.
             bind_run (writeTo w (PagerStdin pager) opts result) (\<lambda>_.
               ([Close (PagerStdin pager), Wait pager (cmdWait w pager)], Return ())))))
      else if output_opt opts \<noteq> '''' then
        (case osCreate w (output_opt opts) of
           Some err \<Rightarrow> logFatal err
         | None \<Rightarrow>
             bind_run ([Create (output_opt opts)], Return ()) (\<lambda>_.
             bind_run (writeTo w (FileW (output_opt opts)) opts result) (\<lambda>_.
               ([Close (FileW (output_opt opts))], Return ()))))
      else writeTo w OsStdout opts result)"

subsection \<open>The program\<close>

definition ignoreEnvs :: "string list" where
  "ignoreEnvs =
     [''PGHOSTADDR'', ''PGSERVICE'', ''PGSERVICEFILE'', ''PGREALM'', ''PGREQUIRESSL'',
      ''PGSSLCRL'', ''PGREQUIREPEER'', ''PGKRBSRVNAME'', ''PGGSSLIB'', ''PGSYSCONFDIR'',
      ''PGLOCALEDIR'']"

definition defaults :: "world \<Rightarrow> options" where
  "defaults w =
     \<lparr>CollectConfig = defaultCollectConfig w,
      input = '''', help_opt = '''', helpShort = False, version = False,
      format = ''human'', output_opt = '''', tooLongSec = 60, nopager = False,
      passNone = False, queryProto = ''simple''\<rparr>"

text \<open>The password prompt of \<^verbatim>\<open>main\<close>.\<close>

definition askPassword :: "world \<Rightarrow> options \<Rightarrow> options run" where
  "askPassword w opts =
     (if \<not> passNone opts \<and> length (input opts) = 0 \<and> getenv w ''PGPASSWORD'' = '''' then
        (case readPassword w of
           Inl err \<Rightarrow> ([Write OsStderr ''Password: '', ReadPassword], Exit 1)
         | Inr p \<Rightarrow>
             ([Write OsStderr ''Password: '', ReadPassword],
              Return (opts\<lparr>CollectConfig := (CollectConfig opts)\<lparr>Password := p\<rparr>\<rparr>)))
      else ([], Return opts))"

text \<open>Modelled from the spec: \<^verbatim>\<open>collector.Collect\<close> is another package. The spec says
  that it gives a report or fails fatally: the call either returns the report or ends the
  run as \<^verbatim>\<open>log.Fatal\<close> does.\<close>

definition callCollect :: "world \<Rightarrow> CollectConfig \<Rightarrow> string list \<Rightarrow> Model run" where
  "callCollect w cfg args =
     (case collect w cfg args of
        Inl err \<Rightarrow> logFatal err
      | Inr result \<Rightarrow> ([], Return result))"

text \<open>The block ``collect or load data'' of \<^verbatim>\<open>main\<close>.\<close>

definition loadOrCollect :: "world \<Rightarrow> options \<Rightarrow> string list \<Rightarrow> Model run" where
  "loadOrCollect w opts args =
     (if length (input opts) > 0 then
        (case osOpen w (input opts) of
           Some err \<Rightarrow> logFatal err
         | None \<Rightarrow>
            (case jsonDecode w (input opts) of
               Inl err \<Rightarrow>
                 bind_run ([Open (input opts)], Return ()) (\<lambda>_.
                   logFatal (input opts @ '': '' @ err))
             | Inr obj \<Rightarrow> ([Open (input opts), CloseInput (input opts)], Return obj)))
      else
        bind_run (callCollect w (CollectConfig opts) args) (\<lambda>result.
          ([], Return (result\<lparr>UserAgent :=
             (if length (versionVar w) = 0 then ''pgmetrics/devel''
              else ''pgmetrics/'' @ versionVar w)\<rparr>))))"

text \<open>The loop of \<^verbatim>\<open>main\<close> that unsets the ignored variables.\<close>

definition unsetIgnored :: "world \<Rightarrow> world" where
  "unsetIgnored w = w\<lparr>environ := foldl (\<lambda>e k. e(k := None)) (environ w) ignoreEnvs\<rparr>"

text \<open>
  \<^verbatim>\<open>s.Parse(os.Args)\<close>, first statement of the block ``parse'' of \<^verbatim>\<open>options.parse\<close>.
  The getopt package is not part of this repository. \<open>getopt\<close> stands for its reading of
  the command line: either the error of a command line that it rejects (an unknown
  option, a value that is not a number or does not fit), or the options value with the
  command line stored into the defaults, \<^verbatim>\<open>help.Seen()\<close> and \<^verbatim>\<open>s.Args()\<close>. On an
  error \<^verbatim>\<open>s.Parse\<close> prints it on the error stream, calls the usage function, which
  \<^verbatim>\<open>s.SetUsage(printTry)\<close> has set, and ends with \<^verbatim>\<open>os.Exit(1)\<close>.
\<close>

definition getoptParse ::
  "(options \<Rightarrow> string + options \<times> bool \<times> string list) \<Rightarrow> options \<Rightarrow>
   (options \<times> bool \<times> string list) run" where
  "getoptParse getopt opts =
     (case getopt opts of
        Inl err \<Rightarrow> (Write OsStderr (err @ ''\<newline>'') # printTry, Exit 1)
      | Inr r \<Rightarrow> ([], Return r))"

text \<open>\<^verbatim>\<open>main\<close>, with \<^verbatim>\<open>o.parse()\<close> as \<open>getoptParse\<close> followed by \<open>parse\<close>.\<close>

definition main ::
  "world \<Rightarrow> (options \<Rightarrow> string + options \<times> bool \<times> string list) \<Rightarrow> unit run" where
  "main w0 getopt =
     (let w = unsetIgnored w0 in
      bind_run (getoptParse getopt (defaults w)) (\<lambda>(opts0, seen, rest).
      bind_run (parse w opts0 seen rest) (\<lambda>(opts1, args).
      bind_run (askPassword w opts1) (\<lambda>opts.
      bind_run (loadOrCollect w opts args) (\<lambda>result.
      process w result opts args)))))"

section \<open>Vocabulary of the statements\<close>

subsection \<open>The checks of \<open>parse\<close>\<close>

text \<open>The help mode after the rule for a bare \<^verbatim>\<open>--help\<close>.\<close>

definition helpMode :: "options \<Rightarrow> bool \<Rightarrow> string" where
  "helpMode opts seen = (if seen \<and> help_opt opts = '''' then ''short'' else help_opt opts)"

text \<open>Each predicate is the negation of the guard of one check of \<open>parse\<close>.\<close>

definition helpOK :: "options \<Rightarrow> bool \<Rightarrow> bool" where
  "helpOK opts seen \<longleftrightarrow>
     helpMode opts seen = '''' \<or> helpMode opts seen = ''short'' \<or>
     helpMode opts seen = ''variables''"

definition formatOK :: "options \<Rightarrow> bool" where
  "formatOK opts \<longleftrightarrow>
     format opts = ''human'' \<or> format opts = ''json'' \<or> format opts = ''csv''"

definition basicOK :: "options \<Rightarrow> bool \<Rightarrow> bool" where
  "basicOK opts seen \<longleftrightarrow>
     helpOK opts seen \<and> formatOK opts \<and> Port (CollectConfig opts) \<noteq> 0 \<and>
     TimeoutSec (CollectConfig opts) \<noteq> 0 \<and> LockTimeoutMillisec (CollectConfig opts) \<noteq> 0"

definition regexpsOK :: "world \<Rightarrow> options \<Rightarrow> bool" where
  "regexpsOK w opts \<longleftrightarrow>
     getRegexp w (Schema (CollectConfig opts)) = None \<and>
     getRegexp w (ExclSchema (CollectConfig opts)) = None \<and>
     getRegexp w (Table (CollectConfig opts)) = None \<and>
     getRegexp w (ExclTable (CollectConfig opts)) = None"

definition omitVocabulary :: "string set" where
  "omitVocabulary =
     {''tables'', ''indexes'', ''sequences'', ''functions'', ''extensions'', ''triggers'',
      ''statements'', ''log'', ''citus'', ''indexdefs'', ''bloat''}"

definition omitOK :: "options \<Rightarrow> bool" where
  "omitOK opts \<longleftrightarrow> set (Omit (CollectConfig opts)) \<subseteq> omitVocabulary"

definition protoOK :: "options \<Rightarrow> bool" where
  "protoOK opts \<longleftrightarrow> queryProto opts = ''simple'' \<or> queryProto opts = ''extended''"

text \<open>The guard of the help action, and the options value that \<open>parse\<close> goes on with.\<close>

definition helpRequested :: "options \<Rightarrow> bool \<Rightarrow> bool" where
  "helpRequested opts seen \<longleftrightarrow>
     helpShort opts \<or> helpMode opts seen = ''short'' \<or> helpMode opts seen = ''variables''"

definition validated :: "options \<Rightarrow> bool \<Rightarrow> options" where
  "validated opts seen =
     opts\<lparr>help_opt := helpMode opts seen,
          CollectConfig :=
            (CollectConfig opts)\<lparr>UseExtendedQP := (queryProto opts = ''extended'')\<rparr>\<rparr>"

subsection \<open>The routing of \<open>process\<close>\<close>

text \<open>The output path after the rule for \<^verbatim>\<open>"-"\<close>, the options value that \<open>process\<close>
  goes on with, and its variable \<^verbatim>\<open>usePager\<close>.\<close>

definition outPath :: "options \<Rightarrow> string" where
  "outPath opts = (if output_opt opts = ''-'' then '''' else output_opt opts)"

definition normalized :: "options \<Rightarrow> options" where
  "normalized opts = opts\<lparr>output_opt := outPath opts\<rparr>"

definition usePager :: "world \<Rightarrow> options \<Rightarrow> bool" where
  "usePager w opts \<longleftrightarrow>
     outPath opts = '''' \<and> \<not> nopager opts \<and> lookupPager w \<noteq> '''' \<and> stdoutIsTerminal w"

subsection \<open>Reading a run\<close>

text \<open>The encoders that a run invokes, in order.\<close>

fun encodersRun :: "event list \<Rightarrow> encoder list" where
  "encodersRun [] = []"
| "encodersRun (Encode e fd # es) = e # encodersRun es"
| "encodersRun (_ # es) = encodersRun es"

text \<open>The pager pipes and output files that the program holds open after the events
  \<open>es\<close>, when it held \<open>ws\<close> before. An output file counts from \<^verbatim>\<open>os.Create\<close> on.
  The input pipe of a pager counts from the start of the pager on: between
  \<^verbatim>\<open>cmd.StdinPipe\<close> and \<^verbatim>\<open>cmd.Start\<close> the program does nothing, and a \<^verbatim>\<open>cmd.Start\<close>
  that fails closes the pipe itself (package \<^verbatim>\<open>os/exec\<close>) before it returns its error,
  so a run without the event \<open>Start\<close> holds no pipe.\<close>

fun stillOpen :: "writer list \<Rightarrow> event list \<Rightarrow> writer list" where
  "stillOpen ws [] = ws"
| "stillOpen ws (Start p # es) = stillOpen (PagerStdin p # ws) es"
| "stillOpen ws (Create f # es) = stillOpen (FileW f # ws) es"
| "stillOpen ws (Close x # es) = stillOpen (removeAll x ws) es"
| "stillOpen ws (_ # es) = stillOpen ws es"

subsection \<open>Concrete inputs\<close>

definition exampleConfig :: CollectConfig where
  "exampleConfig =
     \<lparr>TimeoutSec = 5, LockTimeoutMillisec = 50, Schema = '''', ExclSchema = '''', Table = '''',
      ExclTable = '''', Omit = [], Host = ''localhost'', Port = 5432, User = ''postgres'',
      Password = '''', UseExtendedQP = False\<rparr>"

definition exampleOpts :: options where
  "exampleOpts =
     \<lparr>CollectConfig = exampleConfig, input = '''', help_opt = '''', helpShort = False,
      version = False, format = ''human'', output_opt = '''', tooLongSec = 60, nopager = False,
      passNone = False, queryProto = ''simple''\<rparr>"

definition exampleModel :: Model where
  "exampleModel = \<lparr>UserAgent = '''', content = ''{}''\<rparr>"

text \<open>A terminal with \<^verbatim>\<open>less\<close> and \<^verbatim>\<open>more\<close> on the search path, no \<^verbatim>\<open>PAGER\<close>, a
  pager that exits with status 1, and a regular expression compiler that rejects
  \<^verbatim>\<open>(\<close>.\<close>

definition exampleWorld :: world where
  "exampleWorld =
     \<lparr>environ = Map.empty,
      lookPath = (\<lambda>p. p = ''less'' \<or> p = ''more''),
      stdoutIsTerminal = True,
      compilePOSIX = (\<lambda>r. if r = ''('' then Some ''missing closing )'' else None),
      cmdStdinPipe = (\<lambda>_. None),
      cmdStart = (\<lambda>_. None),
      cmdWait = (\<lambda>_. Some ''exit status 1''),
      osCreate = (\<lambda>_. None),
      osOpen = (\<lambda>_. None),
      jsonDecode = (\<lambda>_. Inr exampleModel),
      jsonEncode = (\<lambda>_ m. Inr (content m)),
      model2csv = (\<lambda>_ m. Inr (content m)),
      writeHumanTo = (\<lambda>_ _ m. Inr (content m)),
      readPassword = Inr ''secret'',
      collect = (\<lambda>_ _. Inr exampleModel),
      defaultCollectConfig = exampleConfig,
      versionVar = ''''\<rparr>"

text \<open>The same terminal with a pager that cannot be started, and with a JSON encoder
  that fails.\<close>

definition startFailsWorld :: world where
  "startFailsWorld = exampleWorld\<lparr>cmdStart := (\<lambda>_. Some ''permission denied'')\<rparr>"

definition encodeFailsWorld :: world where
  "encodeFailsWorld = exampleWorld\<lparr>jsonEncode := (\<lambda>_ _. Inl ''unsupported value'')\<rparr>"

definition jsonFileOpts :: options where
  "jsonFileOpts = exampleOpts\<lparr>output_opt := ''out.json'', format := ''json''\<rparr>"

definition jsonPagerOpts :: options where
  "jsonPagerOpts = exampleOpts\<lparr>format := ''json''\<rparr>"


section \<open>Lemmas\<close>

subsection \<open>Runs\<close>

lemma bind_run_Exit [simp]: "bind_run (es, Exit c) f = (es, Exit c)"
  by (simp add: bind_run_def)

lemma bind_run_Return [simp]: "bind_run (es, Return x) f = (es @ fst (f x), snd (f x))"
  by (simp add: bind_run_def split: prod.split)

lemma snd_bind_run: "snd (bind_run m f) = (case snd m of Exit c \<Rightarrow> Exit c | Return x \<Rightarrow> snd (f x))"
  by (cases m) (simp add: bind_run_def split: outcome.split prod.split)

lemma fst_bind_run: "fst (bind_run m f) = (case snd m of Exit c \<Rightarrow> fst m | Return x \<Rightarrow> fst m @ fst (f x))"
  by (cases m) (simp add: bind_run_def split: outcome.split prod.split)

lemma logFatal_simps [simp]:
  "snd (logFatal s) = Exit 1"
  "fst (logFatal s) = [Write OsStderr (logLine s)]"
  by (simp_all add: logFatal_def)

lemma omitLoop_accepts: "snd (omitLoop oms) = Return () \<longleftrightarrow> set oms \<subseteq> omitVocabulary"
  by (induction oms) (auto simp: omitVocabulary_def)

lemma omitLoop_ok: "set oms \<subseteq> omitVocabulary \<Longrightarrow> omitLoop oms = ([], Return ())"
  by (induction oms) (auto simp: omitVocabulary_def)

lemma omitLoop_first:
  "set pre \<subseteq> omitVocabulary \<Longrightarrow> om \<notin> omitVocabulary \<Longrightarrow>
   omitLoop (pre @ om # post) =
     ([Write OsStderr (omitMsg om), Write OsStderr tryText], Exit 2)"
  by (induction pre) (auto simp: omitVocabulary_def printTry_def)

subsection \<open>The stages of \<open>parse\<close>\<close>

lemma usage_snd [simp]: "snd (usage opts c) = Exit c"
  by (simp add: usage_def Let_def)

lemma parse_staged:
  "parse w opts seen rest =
     (if \<not> helpOK opts seen then (printTry, Exit 2)
      else if \<not> formatOK opts then (Write OsStderr formatMsg # printTry, Exit 2)
      else if Port (CollectConfig opts) = 0 then (Write OsStderr portMsg # printTry, Exit 2)
      else if TimeoutSec (CollectConfig opts) = 0 then (Write OsStderr timeoutMsg # printTry, Exit 2)
      else if LockTimeoutMillisec (CollectConfig opts) = 0 then
        (Write OsStderr lockTimeoutMsg # printTry, Exit 2)
      else
        (case getRegexp w (Schema (CollectConfig opts)) of
           Some err \<Rightarrow> (Write OsStderr (schemaMsg err) # printTry, Exit 2)
         | None \<Rightarrow>
        (case getRegexp w (ExclSchema (CollectConfig opts)) of
           Some err \<Rightarrow> (Write OsStderr (exclSchemaMsg err) # printTry, Exit 2)
         | None \<Rightarrow>
        (case getRegexp w (Table (CollectConfig opts)) of
           Some err \<Rightarrow> (Write OsStderr (tableMsg err) # printTry, Exit 2)
         | None \<Rightarrow>
        (case getRegexp w (ExclTable (CollectConfig opts)) of
           Some err \<Rightarrow> (Write OsStderr (exclTableMsg err) # printTry, Exit 2)
         | None \<Rightarrow>
        bind_run (omitLoop (Omit (CollectConfig opts))) (\<lambda>_.
          if \<not> protoOK opts then (Write OsStderr queryProtoMsg # printTry, Exit 2)
          else if helpRequested opts seen then usage (validated opts seen) 0
          else if version opts then
            ([Write OsStdout (versionLine (if length (versionVar w) = 0 then ''devel''
                                           else versionVar w))], Exit 0)
          else ([], Return (validated opts seen, rest))))))))"
proof (cases "seen \<and> help_opt opts = ''''")
  case True
  then show ?thesis
    by (simp add: parse_def Let_def helpOK_def formatOK_def protoOK_def helpRequested_def
        validated_def helpMode_def split del: if_split cong: if_cong option.case_cong)
next
  case False
  then have E: "(if seen \<and> help_opt opts = [] then opts\<lparr>help_opt := ''short''\<rparr> else opts) = opts"
    and H: "helpMode opts seen = help_opt opts"
    by (simp_all add: helpMode_def)
  show ?thesis
    unfolding parse_def E helpOK_def helpRequested_def validated_def H
    by (simp add: Let_def formatOK_def protoOK_def
        split del: if_split cong: if_cong option.case_cong)
qed

subsection \<open>Encoders and routing\<close>

lemma stillOpen_append: "stillOpen ws (es @ es') = stillOpen (stillOpen ws es) es'"
  by (induction ws es rule: stillOpen.induct) simp_all

lemma writeTo_cases:
  "writeTo w fd opts r =
     (if format opts = ''json'' then
        (case jsonEncode w fd r of
           Inl err \<Rightarrow> ([Encode JSON fd, Write OsStderr (logLine err)], Exit 1)
         | Inr b \<Rightarrow> ([Encode JSON fd, Write fd b], Return ()))
      else if format opts = ''csv'' then
        (case model2csv w fd r of
           Inl err \<Rightarrow> ([Encode CSV fd, Write OsStderr (logLine err)], Exit 1)
         | Inr b \<Rightarrow> ([Encode CSV fd, Write fd b], Return ()))
      else
        (case writeHumanTo w fd opts r of
           Inl err \<Rightarrow> ([Encode Human fd, Write OsStderr (logLine err)], Exit 1)
         | Inr b \<Rightarrow> ([Encode Human fd, Write fd b], Return ())))"
  by (simp add: writeTo_def writeJSONTo_def writeCSVTo_def callWriteHumanTo_def logFatal_def
      split: sum.split)

lemma writeTo_shape:
  "\<exists>e x s. fst (writeTo w fd opts r) = [Encode e fd, Write x s]"
  by (simp add: writeTo_cases split: sum.split)

lemma writeTo_exit: "snd (writeTo w fd opts r) = Exit c \<Longrightarrow> c = 1"
  by (simp add: writeTo_cases split: sum.splits if_splits)

lemma writeTo_exit_log:
  "snd (writeTo w fd opts r) = Exit c \<Longrightarrow>
   \<exists>e s. fst (writeTo w fd opts r) = [Encode e fd, Write OsStderr (logLine s)]"
  by (auto simp add: writeTo_cases split: sum.splits if_splits)

lemma writeTo_encoders:
  "encodersRun (fst (writeTo w fd opts r)) =
     [if format opts = ''json'' then JSON else if format opts = ''csv'' then CSV else Human]"
  by (simp add: writeTo_cases split: sum.split)

lemma writeTo_stillOpen [simp]: "stillOpen ws (fst (writeTo w fd opts r)) = ws"
  using writeTo_shape[of w fd opts r] by auto

lemma writeTo_no_Command [simp]: "Command p \<notin> set (fst (writeTo w fd opts r))"
  using writeTo_shape[of w fd opts r] by auto

lemma process_staged:
  "process w result opts args =
     (if usePager w opts then
        (case cmdStdinPipe w (lookupPager w) of
           Some err \<Rightarrow> ([Command (lookupPager w), Write OsStderr (logLine err)], Exit 1)
         | None \<Rightarrow>
        (case cmdStart w (lookupPager w) of
           Some err \<Rightarrow>
             ([Command (lookupPager w), StdinPipe (lookupPager w), Write OsStderr (logLine err)],
              Exit 1)
         | None \<Rightarrow>
             bind_run ([Command (lookupPager w), StdinPipe (lookupPager w), Start (lookupPager w)],
                       Return ()) (\<lambda>_.
             bind_run (writeTo w (PagerStdin (lookupPager w)) (normalized opts) result) (\<lambda>_.
               ([Close (PagerStdin (lookupPager w)),
                 Wait (lookupPager w) (cmdWait w (lookupPager w))], Return ())))))
      else if outPath opts \<noteq> '''' then
        (case osCreate w (outPath opts) of
           Some err \<Rightarrow> ([Write OsStderr (logLine err)], Exit 1)
         | None \<Rightarrow>
             bind_run ([Create (outPath opts)], Return ()) (\<lambda>_.
             bind_run (writeTo w (FileW (outPath opts)) (normalized opts) result) (\<lambda>_.
               ([Close (FileW (outPath opts))], Return ()))))
      else writeTo w OsStdout (normalized opts) result)"
proof (cases "output_opt opts = ''-''")
  case True
  then show ?thesis
    by (simp add: process_def Let_def usePager_def outPath_def normalized_def logFatal_def
        split: option.split)
next
  case False
  then have E: "(if output_opt opts = ''-'' then opts\<lparr>output_opt := ''''\<rparr> else opts) = opts"
    and N: "normalized opts = opts" and P: "outPath opts = output_opt opts"
    by (simp_all add: normalized_def outPath_def)
  show ?thesis
    unfolding process_def E N P usePager_def
    by (simp add: Let_def P logFatal_def split: option.split)
qed

lemma lookupPager_cmdWait [simp]: "lookupPager (w\<lparr>cmdWait := f\<rparr>) = lookupPager w"
  by (simp add: lookupPager_def getenv_def Let_def)

lemma usePager_cmdWait [simp]: "usePager (w\<lparr>cmdWait := f\<rparr>) opts = usePager w opts"
  by (simp add: usePager_def)

lemma writeTo_cmdWait [simp]: "writeTo (w\<lparr>cmdWait := f\<rparr>) fd opts r = writeTo w fd opts r"
  by (simp add: writeTo_cases)

lemma process_exit: "snd (process w result opts args) = Exit c \<Longrightarrow> c = 1"
  by (auto simp: process_staged snd_bind_run dest: writeTo_exit
      split: if_splits option.splits outcome.splits)

lemma process_Command_iff:
  "Command p \<in> set (fst (process w result opts args)) \<longleftrightarrow> usePager w opts \<and> p = lookupPager w"
  by (auto simp: process_staged fst_bind_run split: option.splits outcome.splits)

lemma lookupPager_resolvable:
  "lookupPager w \<noteq> '''' \<longleftrightarrow>
     getenv w ''PAGER'' \<noteq> '''' \<or> lookPath w ''less'' \<or> lookPath w ''more''"
  by (simp add: lookupPager_def Let_def)

lemma process_stillOpen:
  "snd (process w result opts args) = Return () \<Longrightarrow>
   stillOpen [] (fst (process w result opts args)) = []"
  by (auto simp: process_staged fst_bind_run snd_bind_run stillOpen_append
      split: if_splits option.splits outcome.splits)

subsection \<open>The checks of \<open>parse\<close>, one by one\<close>

lemma parse_help_bad:
  "\<not> helpOK opts seen \<Longrightarrow> parse w opts seen rest = ([Write OsStderr tryText], Exit 2)"
  by (simp add: parse_staged printTry_def)

lemma parse_format_bad:
  "helpOK opts seen \<Longrightarrow> \<not> formatOK opts \<Longrightarrow>
   parse w opts seen rest = ([Write OsStderr formatMsg, Write OsStderr tryText], Exit 2)"
  by (simp add: parse_staged printTry_def)

lemma parse_port_bad:
  "helpOK opts seen \<Longrightarrow> formatOK opts \<Longrightarrow> Port (CollectConfig opts) = 0 \<Longrightarrow>
   parse w opts seen rest = ([Write OsStderr portMsg, Write OsStderr tryText], Exit 2)"
  by (simp add: parse_staged printTry_def)

lemma parse_timeout_bad:
  "helpOK opts seen \<Longrightarrow> formatOK opts \<Longrightarrow> Port (CollectConfig opts) \<noteq> 0 \<Longrightarrow>
   TimeoutSec (CollectConfig opts) = 0 \<Longrightarrow>
   parse w opts seen rest = ([Write OsStderr timeoutMsg, Write OsStderr tryText], Exit 2)"
  by (simp add: parse_staged printTry_def)

lemma parse_lock_timeout_bad:
  "helpOK opts seen \<Longrightarrow> formatOK opts \<Longrightarrow> Port (CollectConfig opts) \<noteq> 0 \<Longrightarrow>
   TimeoutSec (CollectConfig opts) \<noteq> 0 \<Longrightarrow> LockTimeoutMillisec (CollectConfig opts) = 0 \<Longrightarrow>
   parse w opts seen rest = ([Write OsStderr lockTimeoutMsg, Write OsStderr tryText], Exit 2)"
  by (simp add: parse_staged printTry_def)

lemma parse_schema_bad:
  "basicOK opts seen \<Longrightarrow> getRegexp w (Schema (CollectConfig opts)) = Some e \<Longrightarrow>
   parse w opts seen rest = ([Write OsStderr (schemaMsg e), Write OsStderr tryText], Exit 2)"
  by (simp add: parse_staged printTry_def basicOK_def)

lemma parse_exclSchema_bad:
  "basicOK opts seen \<Longrightarrow> getRegexp w (Schema (CollectConfig opts)) = None \<Longrightarrow>
   getRegexp w (ExclSchema (CollectConfig opts)) = Some e \<Longrightarrow>
   parse w opts seen rest = ([Write OsStderr (exclSchemaMsg e), Write OsStderr tryText], Exit 2)"
  by (simp add: parse_staged printTry_def basicOK_def)

lemma parse_table_bad:
  "basicOK opts seen \<Longrightarrow> getRegexp w (Schema (CollectConfig opts)) = None \<Longrightarrow>
   getRegexp w (ExclSchema (CollectConfig opts)) = None \<Longrightarrow>
   getRegexp w (Table (CollectConfig opts)) = Some e \<Longrightarrow>
   parse w opts seen rest = ([Write OsStderr (tableMsg e), Write OsStderr tryText], Exit 2)"
  by (simp add: parse_staged printTry_def basicOK_def)

lemma parse_exclTable_bad:
  "basicOK opts seen \<Longrightarrow> getRegexp w (Schema (CollectConfig opts)) = None \<Longrightarrow>
   getRegexp w (ExclSchema (CollectConfig opts)) = None \<Longrightarrow>
   getRegexp w (Table (CollectConfig opts)) = None \<Longrightarrow>
   getRegexp w (ExclTable (CollectConfig opts)) = Some e \<Longrightarrow>
   parse w opts seen rest = ([Write OsStderr (exclTableMsg e), Write OsStderr tryText], Exit 2)"
  by (simp add: parse_staged printTry_def basicOK_def)

lemma parse_after_regexps:
  "basicOK opts seen \<Longrightarrow> regexpsOK w opts \<Longrightarrow>
   parse w opts seen rest =
     bind_run (omitLoop (Omit (CollectConfig opts))) (\<lambda>_.
       if \<not> protoOK opts then (Write OsStderr queryProtoMsg # printTry, Exit 2)
       else if helpRequested opts seen then usage (validated opts seen) 0
       else if version opts then
         ([Write OsStdout (versionLine (if length (versionVar w) = 0 then ''devel''
                                        else versionVar w))], Exit 0)
       else ([], Return (validated opts seen, rest)))"
  by (simp add: parse_staged basicOK_def regexpsOK_def)

lemma parse_omit_bad:
  "basicOK opts seen \<Longrightarrow> regexpsOK w opts \<Longrightarrow>
   Omit (CollectConfig opts) = pre @ om # post \<Longrightarrow> set pre \<subseteq> omitVocabulary \<Longrightarrow>
   om \<notin> omitVocabulary \<Longrightarrow>
   parse w opts seen rest = ([Write OsStderr (omitMsg om), Write OsStderr tryText], Exit 2)"
  by (simp add: parse_after_regexps omitLoop_first)

lemma parse_after_omit:
  "basicOK opts seen \<Longrightarrow> regexpsOK w opts \<Longrightarrow> omitOK opts \<Longrightarrow>
   parse w opts seen rest =
     (if \<not> protoOK opts then ([Write OsStderr queryProtoMsg, Write OsStderr tryText], Exit 2)
      else if helpRequested opts seen then usage (validated opts seen) 0
      else if version opts then
        ([Write OsStdout (versionLine (if length (versionVar w) = 0 then ''devel''
                                       else versionVar w))], Exit 0)
      else ([], Return (validated opts seen, rest)))"
  by (simp add: parse_after_regexps omitLoop_ok omitOK_def printTry_def usage_def Let_def)

lemma omitLoop_bad:
  "\<not> set oms \<subseteq> omitVocabulary \<Longrightarrow>
   \<exists>om. om \<in> set oms \<and> om \<notin> omitVocabulary \<and>
     omitLoop oms = ([Write OsStderr (omitMsg om), Write OsStderr tryText], Exit 2)"
proof (induction oms)
  case Nil
  then show ?case by simp
next
  case (Cons a oms)
  show ?case
  proof (cases "a \<in> omitVocabulary")
    case True
    with Cons.prems have "\<not> set oms \<subseteq> omitVocabulary" by simp
    from Cons.IH [OF this] obtain om where
      "om \<in> set oms" "om \<notin> omitVocabulary"
      "omitLoop oms = ([Write OsStderr (omitMsg om), Write OsStderr tryText], Exit 2)"
      by blast
    moreover from True have "omitLoop (a # oms) = omitLoop oms"
      by (auto simp: omitVocabulary_def)
    ultimately show ?thesis by auto
  next
    case False
    then have "omitLoop (a # oms) = ([Write OsStderr (omitMsg a), Write OsStderr tryText], Exit 2)"
      using omitLoop_first [of "[]" a oms] by simp
    with False show ?thesis by auto
  qed
qed

lemma parse_exit2_iff:
  "snd (parse w opts seen rest) = Exit 2 \<longleftrightarrow>
     \<not> (basicOK opts seen \<and> regexpsOK w opts \<and> omitOK opts \<and> protoOK opts)"
proof (cases "basicOK opts seen")
  case False
  then have "snd (parse w opts seen rest) = Exit 2"
    by (auto simp: parse_staged basicOK_def)
  with False show ?thesis by simp
next
  case b: True
  show ?thesis
  proof (cases "regexpsOK w opts")
    case False
    then have "snd (parse w opts seen rest) = Exit 2" using b
      by (auto simp: parse_staged basicOK_def regexpsOK_def split: option.splits)
    with False show ?thesis by simp
  next
    case r: True
    show ?thesis
    proof (cases "omitOK opts")
      case False
      then have "snd (omitLoop (Omit (CollectConfig opts))) = Exit 2"
        using omitLoop_bad [of "Omit (CollectConfig opts)"] by (auto simp: omitOK_def)
      then show ?thesis using b r False
        by (simp add: parse_after_regexps snd_bind_run)
    next
      case True
      then show ?thesis using b r
        by (simp add: parse_after_omit)
    qed
  qed
qed

lemma parse_never_exit1: "snd (parse w opts seen rest) \<noteq> Exit 1"
proof (cases "basicOK opts seen \<and> regexpsOK w opts \<and> omitOK opts \<and> protoOK opts")
  case True
  then show ?thesis by (simp add: parse_after_omit)
next
  case False
  then have "snd (parse w opts seen rest) = Exit 2"
    by (simp add: parse_exit2_iff)
  then show ?thesis by simp
qed

lemma getRegexp_None_iff: "getRegexp w r = None \<longleftrightarrow> r = [] \<or> compilePOSIX w r = None"
  by (simp add: getRegexp_def)

lemma getRegexp_Some: "r \<noteq> [] \<Longrightarrow> compilePOSIX w r = Some e \<Longrightarrow> getRegexp w r = Some e"
  by (simp add: getRegexp_def)

lemma parse_Return:
  "parse w opts seen rest = (es, Return (opts', args)) \<Longrightarrow>
   basicOK opts seen \<and> regexpsOK w opts \<and> omitOK opts \<and> protoOK opts \<and>
   es = [] \<and> opts' = validated opts seen \<and> args = rest"
proof -
  assume a: "parse w opts seen rest = (es, Return (opts', args))"
  then have "snd (parse w opts seen rest) \<noteq> Exit 2" by simp
  then have ok: "basicOK opts seen \<and> regexpsOK w opts \<and> omitOK opts \<and> protoOK opts"
    by (simp add: parse_exit2_iff)
  with a show ?thesis
    by (auto simp: parse_after_omit usage_def Let_def split: if_splits)
qed



subsection \<open>How runs end\<close>

lemma parse_exit2_diag:
  assumes h: "helpOK opts seen" and x: "snd (parse w opts seen rest) = Exit 2"
  shows "\<exists>d. fst (parse w opts seen rest) = [Write OsStderr d, Write OsStderr tryText]"
proof (cases "basicOK opts seen")
  case False
  with h show ?thesis
    by (auto simp: parse_staged basicOK_def printTry_def)
next
  case b: True
  show ?thesis
  proof (cases "regexpsOK w opts")
    case False
    with b show ?thesis
      by (auto simp: parse_staged basicOK_def regexpsOK_def printTry_def split: option.splits)
  next
    case r: True
    show ?thesis
    proof (cases "omitOK opts")
      case False
      then obtain om where
        "omitLoop (Omit (CollectConfig opts)) =
           ([Write OsStderr (omitMsg om), Write OsStderr tryText], Exit 2)"
        using omitLoop_bad [of "Omit (CollectConfig opts)"] by (auto simp: omitOK_def)
      with b r show ?thesis
        by (simp add: parse_after_regexps)
    next
      case True
      with b r x have "\<not> protoOK opts"
        by (simp add: parse_exit2_iff)
      with b r True show ?thesis
        by (simp add: parse_after_omit)
    qed
  qed
qed

lemma process_exit_log:
  "snd (process w result opts args) = Exit c \<Longrightarrow>
   \<exists>s. last (fst (process w result opts args)) = Write OsStderr (logLine s)"
  by (auto simp: process_staged fst_bind_run snd_bind_run dest!: writeTo_exit_log
      split: if_splits option.splits outcome.splits)

lemma loadOrCollect_open_fails:
  "length (input opts) > 0 \<Longrightarrow> osOpen w (input opts) = Some err \<Longrightarrow>
   loadOrCollect w opts args = ([Write OsStderr (logLine err)], Exit 1)"
  by (simp add: loadOrCollect_def logFatal_def)

lemma loadOrCollect_decode_fails:
  "length (input opts) > 0 \<Longrightarrow> osOpen w (input opts) = None \<Longrightarrow>
   jsonDecode w (input opts) = Inl err \<Longrightarrow>
   loadOrCollect w opts args =
     ([Open (input opts), Write OsStderr (logLine (input opts @ '': '' @ err))], Exit 1)"
  by (simp add: loadOrCollect_def logFatal_def)

lemma loadOrCollect_exit: "snd (loadOrCollect w opts args) = Exit c \<Longrightarrow> c = 1"
  by (auto simp: loadOrCollect_def callCollect_def snd_bind_run
      split: if_splits option.splits sum.splits outcome.splits)

lemma askPassword_exit: "snd (askPassword w opts) = Exit c \<Longrightarrow> c = 1"
  by (auto simp: askPassword_def split: if_splits sum.splits)

lemma after_parse_exit:
  "snd (bind_run (askPassword w opts1) (\<lambda>opts.
        bind_run (loadOrCollect w opts args) (\<lambda>result. process w result opts args))) = Exit c
   \<Longrightarrow> c = 1"
  by (auto simp: snd_bind_run dest: askPassword_exit loadOrCollect_exit process_exit
      split: outcome.splits)

lemma main_getopt_fails:
  "getopt (defaults (unsetIgnored w0)) = Inl err \<Longrightarrow>
   main w0 getopt = ([Write OsStderr (err @ ''\<newline>''), Write OsStderr tryText], Exit 1)"
  by (simp add: main_def Let_def getoptParse_def printTry_def)

lemma main_exit:
  assumes g: "getopt (defaults (unsetIgnored w0)) = Inr (opts0, seen, rest)"
  shows "(snd (main w0 getopt) = Exit 2 \<longleftrightarrow>
            snd (parse (unsetIgnored w0) opts0 seen rest) = Exit 2) \<and>
         (snd (main w0 getopt) = Exit 1 \<longrightarrow>
            (\<exists>es opts1 args. parse (unsetIgnored w0) opts0 seen rest = (es, Return (opts1, args))))"
proof (cases "snd (parse (unsetIgnored w0) opts0 seen rest)")
  case (Exit c)
  then have "snd (main w0 getopt) = Exit c"
    using g by (simp add: main_def Let_def getoptParse_def snd_bind_run)
  moreover have "c \<noteq> 1"
    using Exit parse_never_exit1 [of "unsetIgnored w0" opts0 seen rest] by auto
  ultimately show ?thesis using Exit by simp
next
  case (Return x)
  obtain opts1 args where x: "x = (opts1, args)" by (cases x)
  have m: "snd (main w0 getopt) =
      snd (bind_run (askPassword (unsetIgnored w0) opts1) (\<lambda>opts.
        bind_run (loadOrCollect (unsetIgnored w0) opts args) (\<lambda>result.
          process (unsetIgnored w0) result opts args)))"
    using g Return x by (simp add: main_def Let_def getoptParse_def snd_bind_run)
  have "snd (main w0 getopt) \<noteq> Exit 2"
    using after_parse_exit [of "unsetIgnored w0" opts1 args 2] m by auto
  moreover have "\<exists>es. parse (unsetIgnored w0) opts0 seen rest = (es, Return (opts1, args))"
    using Return x by (cases "parse (unsetIgnored w0) opts0 seen rest") simp
  ultimately show ?thesis using Return by auto
qed


subsection \<open>The paths of \<open>process\<close>\<close>

lemma writeTo_json_fails:
  "format opts = ''json'' \<Longrightarrow> jsonEncode w fd r = Inl err \<Longrightarrow>
   writeTo w fd opts r = ([Encode JSON fd, Write OsStderr (logLine err)], Exit 1)"
  by (simp add: writeTo_cases)

lemma writeTo_csv_fails:
  "format opts = ''csv'' \<Longrightarrow> model2csv w fd r = Inl err \<Longrightarrow>
   writeTo w fd opts r = ([Encode CSV fd, Write OsStderr (logLine err)], Exit 1)"
  by (simp add: writeTo_cases)

lemma writeTo_human_fails:
  "format opts \<noteq> ''json'' \<Longrightarrow> format opts \<noteq> ''csv'' \<Longrightarrow>
   writeHumanTo w fd opts r = Inl err \<Longrightarrow>
   writeTo w fd opts r = ([Encode Human fd, Write OsStderr (logLine err)], Exit 1)"
  by (simp add: writeTo_cases)

lemma process_pipe_fails:
  "usePager w opts \<Longrightarrow> cmdStdinPipe w (lookupPager w) = Some err \<Longrightarrow>
   process w result opts args =
     ([Command (lookupPager w), Write OsStderr (logLine err)], Exit 1)"
  by (simp add: process_staged)

lemma process_start_fails:
  "usePager w opts \<Longrightarrow> cmdStdinPipe w (lookupPager w) = None \<Longrightarrow>
   cmdStart w (lookupPager w) = Some err \<Longrightarrow>
   process w result opts args =
     ([Command (lookupPager w), StdinPipe (lookupPager w), Write OsStderr (logLine err)],
      Exit 1)"
  by (simp add: process_staged)

lemma process_create_fails:
  "\<not> usePager w opts \<Longrightarrow> outPath opts \<noteq> '''' \<Longrightarrow> osCreate w (outPath opts) = Some err \<Longrightarrow>
   process w result opts args = ([Write OsStderr (logLine err)], Exit 1)"
  by (simp add: process_staged)

lemma process_pager_encode_fails:
  "usePager w opts \<Longrightarrow> cmdStdinPipe w (lookupPager w) = None \<Longrightarrow>
   cmdStart w (lookupPager w) = None \<Longrightarrow>
   snd (writeTo w (PagerStdin (lookupPager w)) (normalized opts) result) = Exit c \<Longrightarrow>
   process w result opts args =
     ([Command (lookupPager w), StdinPipe (lookupPager w), Start (lookupPager w)] @
      fst (writeTo w (PagerStdin (lookupPager w)) (normalized opts) result), Exit 1)"
  using writeTo_exit [of w "PagerStdin (lookupPager w)" "normalized opts" result c]
  by (simp add: process_staged fst_bind_run snd_bind_run prod_eq_iff)

lemma process_pager_returns:
  "usePager w opts \<Longrightarrow> cmdStdinPipe w (lookupPager w) = None \<Longrightarrow>
   cmdStart w (lookupPager w) = None \<Longrightarrow>
   snd (writeTo w (PagerStdin (lookupPager w)) (normalized opts) result) = Return u \<Longrightarrow>
   process w result opts args =
     ([Command (lookupPager w), StdinPipe (lookupPager w), Start (lookupPager w)] @
      fst (writeTo w (PagerStdin (lookupPager w)) (normalized opts) result) @
      [Close (PagerStdin (lookupPager w)), Wait (lookupPager w) (cmdWait w (lookupPager w))],
      Return ())"
  by (simp add: process_staged fst_bind_run snd_bind_run prod_eq_iff)

lemma process_file_encode_fails:
  "\<not> usePager w opts \<Longrightarrow> outPath opts \<noteq> '''' \<Longrightarrow> osCreate w (outPath opts) = None \<Longrightarrow>
   snd (writeTo w (FileW (outPath opts)) (normalized opts) result) = Exit c \<Longrightarrow>
   process w result opts args =
     ([Create (outPath opts)] @
      fst (writeTo w (FileW (outPath opts)) (normalized opts) result), Exit 1)"
  using writeTo_exit [of w "FileW (outPath opts)" "normalized opts" result c]
  by (simp add: process_staged fst_bind_run snd_bind_run prod_eq_iff)

lemma process_file_returns:
  "\<not> usePager w opts \<Longrightarrow> outPath opts \<noteq> '''' \<Longrightarrow> osCreate w (outPath opts) = None \<Longrightarrow>
   snd (writeTo w (FileW (outPath opts)) (normalized opts) result) = Return u \<Longrightarrow>
   process w result opts args =
     ([Create (outPath opts)] @
      fst (writeTo w (FileW (outPath opts)) (normalized opts) result) @
      [Close (FileW (outPath opts))], Return ())"
  by (simp add: process_staged fst_bind_run snd_bind_run prod_eq_iff)

lemma process_stdout:
  "\<not> usePager w opts \<Longrightarrow> outPath opts = '''' \<Longrightarrow>
   process w result opts args = writeTo w OsStdout (normalized opts) result"
  by (simp add: process_staged)

lemma process_stillOpen_iff:
  "stillOpen [] (fst (process w result opts args)) \<noteq> [] \<longleftrightarrow>
     (usePager w opts \<and> cmdStdinPipe w (lookupPager w) = None \<and>
      cmdStart w (lookupPager w) = None \<and>
      snd (writeTo w (PagerStdin (lookupPager w)) (normalized opts) result) \<noteq> Return ()) \<or>
     (\<not> usePager w opts \<and> outPath opts \<noteq> '''' \<and> osCreate w (outPath opts) = None \<and>
      snd (writeTo w (FileW (outPath opts)) (normalized opts) result) \<noteq> Return ())"
proof (cases "usePager w opts")
  case True
  show ?thesis
  proof (cases "cmdStdinPipe w (lookupPager w)")
    case (Some err)
    with True show ?thesis by (simp add: process_pipe_fails)
  next
    case None
    show ?thesis
    proof (cases "cmdStart w (lookupPager w)")
      case (Some err)
      with True None show ?thesis by (simp add: process_start_fails)
    next
      case n: None
      show ?thesis
      proof (cases "snd (writeTo w (PagerStdin (lookupPager w)) (normalized opts) result)")
        case (Exit c)
        with True None n show ?thesis
          by (simp add: process_pager_encode_fails stillOpen_append)
      next
        case (Return u)
        with True None n show ?thesis
          by (simp add: process_pager_returns stillOpen_append)
      qed
    qed
  qed
next
  case False
  show ?thesis
  proof (cases "outPath opts = ''''")
    case True
    with False show ?thesis by (simp add: process_stdout)
  next
    case p: False
    show ?thesis
    proof (cases "osCreate w (outPath opts)")
      case (Some err)
      with False p show ?thesis by (simp add: process_create_fails)
    next
      case None
      show ?thesis
      proof (cases "snd (writeTo w (FileW (outPath opts)) (normalized opts) result)")
        case (Exit c)
        with False p None show ?thesis
          by (simp add: process_file_encode_fails stillOpen_append)
      next
        case (Return u)
        with False p None show ?thesis
          by (simp add: process_file_returns stillOpen_append)
      qed
    qed
  qed
qed

section \<open>The claims\<close>

lemmas example_defs = exampleConfig_def exampleOpts_def exampleModel_def exampleWorld_def

lemmas check_defs = basicOK_def helpOK_def helpMode_def formatOK_def regexpsOK_def omitOK_def
  protoOK_def getRegexp_def omitVocabulary_def helpRequested_def

lemmas run_defs = process_def Let_def lookupPager_def getenv_def writeTo_def writeJSONTo_def
  writeCSVTo_def callWriteHumanTo_def logFatal_def logLine_def

subsection \<open>C1: when the pager is used\<close>

text \<open>
  C1. A run of \<open>process\<close> invokes a pager \<open>p\<close> if and only if no explicit output
  path was given (the path is empty or a single dash), the no-pager flag is not set,
  \<open>p\<close> is the pager that the lookup resolves, and standard output is a terminal. The
  lookup resolves a pager exactly when \<^verbatim>\<open>PAGER\<close> is set to a non-empty value or
  \<^verbatim>\<open>less\<close> or \<^verbatim>\<open>more\<close> is on the search path; \<^verbatim>\<open>PAGER\<close> has priority, then
  \<^verbatim>\<open>less\<close>, then \<^verbatim>\<open>more\<close>. When standard output is not a terminal no pager is
  invoked, whatever the search path holds.
\<close>

theorem pager_chosen_iff:
  "(Command p \<in> set (fst (process w result opts args)) \<longleftrightarrow>
      (output_opt opts = '''' \<or> output_opt opts = ''-'') \<and> \<not> nopager opts \<and>
      p = lookupPager w \<and> p \<noteq> '''' \<and> stdoutIsTerminal w) \<and>
   (lookupPager w \<noteq> '''' \<longleftrightarrow>
      getenv w ''PAGER'' \<noteq> '''' \<or> lookPath w ''less'' \<or> lookPath w ''more'') \<and>
   (getenv w ''PAGER'' \<noteq> '''' \<longrightarrow> lookupPager w = getenv w ''PAGER'') \<and>
   (getenv w ''PAGER'' = '''' \<and> lookPath w ''less'' \<longrightarrow> lookupPager w = ''less'') \<and>
   (getenv w ''PAGER'' = '''' \<and> \<not> lookPath w ''less'' \<and> lookPath w ''more'' \<longrightarrow>
      lookupPager w = ''more'') \<and>
   (\<not> stdoutIsTerminal w \<longrightarrow> Command q \<notin> set (fst (process w result opts args)))"
proof -
  have "outPath opts = '''' \<longleftrightarrow> output_opt opts = '''' \<or> output_opt opts = ''-''"
    by (simp add: outPath_def)
  then have "Command p \<in> set (fst (process w result opts args)) \<longleftrightarrow>
      (output_opt opts = '''' \<or> output_opt opts = ''-'') \<and> \<not> nopager opts \<and>
      p = lookupPager w \<and> p \<noteq> '''' \<and> stdoutIsTerminal w"
    by (auto simp: process_Command_iff usePager_def)
  moreover have "\<not> stdoutIsTerminal w \<longrightarrow> Command q \<notin> set (fst (process w result opts args))"
    by (simp add: process_Command_iff usePager_def)
  moreover have "getenv w ''PAGER'' \<noteq> '''' \<longrightarrow> lookupPager w = getenv w ''PAGER''"
    and "getenv w ''PAGER'' = '''' \<and> lookPath w ''less'' \<longrightarrow> lookupPager w = ''less''"
    and "getenv w ''PAGER'' = '''' \<and> \<not> lookPath w ''less'' \<and> lookPath w ''more'' \<longrightarrow>
      lookupPager w = ''more''"
    by (simp_all add: lookupPager_def Let_def)
  ultimately show ?thesis
    using lookupPager_resolvable [of w] by blast
qed

theorem pager_chosen_iff_witness:
  "\<not> stdoutIsTerminal (exampleWorld\<lparr>stdoutIsTerminal := False\<rparr>) \<and>
   lookPath (exampleWorld\<lparr>stdoutIsTerminal := False\<rparr>) ''less'' \<and>
   Command ''less'' \<notin>
     set (fst (process (exampleWorld\<lparr>stdoutIsTerminal := False\<rparr>) exampleModel exampleOpts [])) \<and>
   process (exampleWorld\<lparr>stdoutIsTerminal := False\<rparr>) exampleModel exampleOpts [] =
     ([Encode Human OsStdout, Write OsStdout ''{}''], Return ()) \<and>
   getenv exampleWorld ''PAGER'' = '''' \<and> lookPath exampleWorld ''less'' \<and>
   lookupPager exampleWorld = ''less'' \<and>
   Command ''less'' \<in> set (fst (process exampleWorld exampleModel exampleOpts [])) \<and>
   getenv (exampleWorld\<lparr>environ := [''PAGER'' \<mapsto> ''most'']\<rparr>) ''PAGER'' \<noteq> '''' \<and>
   lookupPager (exampleWorld\<lparr>environ := [''PAGER'' \<mapsto> ''most'']\<rparr>) = ''most'' \<and>
   \<not> lookPath (exampleWorld\<lparr>lookPath := (\<lambda>p. p = ''more'')\<rparr>) ''less'' \<and>
   lookupPager (exampleWorld\<lparr>lookPath := (\<lambda>p. p = ''more'')\<rparr>) = ''more''"
  using pager_chosen_iff [of "''less''" "exampleWorld\<lparr>stdoutIsTerminal := False\<rparr>" exampleModel
      exampleOpts "[]" "''less''"]
    pager_chosen_iff [of "''less''" exampleWorld exampleModel exampleOpts "[]" "''less''"]
    pager_chosen_iff [of "''most''" "exampleWorld\<lparr>environ := [''PAGER'' \<mapsto> ''most'']\<rparr>"
      exampleModel exampleOpts "[]" "''most''"]
    pager_chosen_iff [of "''more''" "exampleWorld\<lparr>lookPath := (\<lambda>p. p = ''more'')\<rparr>"
      exampleModel exampleOpts "[]" "''more''"]
  by (simp add: run_defs example_defs)

subsection \<open>C2: the help action\<close>




subsection \<open>C3: two tiers of failure\<close>

text \<open>
  C3, as the claim states it, fails on the code: a help mode that is not recognized prints
  the usage hint alone, with no diagnostic before it.
\<close>

theorem bad_help_mode_prints_hint_only:
  \<open>parse exampleWorld (exampleOpts\<lparr>help_opt := ''bogus''\<rparr>) True [] =
     ([Write OsStderr ''Try "pgmetrics --help" for more information.\<newline>''], Exit 2)\<close>
  by (simp add: parse_def Let_def printTry_def tryText_def example_defs)

text \<open>
  C3, amended. \<open>parse\<close> ends with status 2 exactly when a check of the option values
  fails (help mode, format, port, timeout, lock timeout, a filter, an omit entry, the
  query protocol), and never with status 1. Its output is then on the error stream and
  ends with the usage hint: the hint alone for a help mode that is not recognized, one
  diagnostic line and then the hint for every other failure. Each failure to open or to
  decode the input file, to create the output file, to set up or to start the pager, or
  to encode the report (in JSON, in CSV or for the human reader, on each of the three
  destinations) prints its message as a log line on the error stream and ends with
  status 1. The whole program ends with status 2 exactly when getopt accepts the command
  line and \<open>parse\<close> ends with status 2; it ends with status 1 only when \<open>parse\<close> has
  returned, or when getopt rejects the command line, which is none of the checks above.
\<close>

theorem failures_two_tiered:
  "(snd (parse w opts seen rest) = Exit 2 \<longleftrightarrow>
      \<not> (basicOK opts seen \<and> regexpsOK w opts \<and> omitOK opts \<and> protoOK opts)) \<and>
   snd (parse w opts seen rest) \<noteq> Exit 1 \<and>
   (\<not> helpOK opts seen \<longrightarrow> parse w opts seen rest = ([Write OsStderr tryText], Exit 2)) \<and>
   (helpOK opts seen \<and> snd (parse w opts seen rest) = Exit 2 \<longrightarrow>
      (\<exists>d. fst (parse w opts seen rest) = [Write OsStderr d, Write OsStderr tryText])) \<and>
   (helpOK opts seen \<and> \<not> formatOK opts \<longrightarrow>
      parse w opts seen rest = ([Write OsStderr formatMsg, Write OsStderr tryText], Exit 2)) \<and>
   (helpOK opts seen \<and> formatOK opts \<and> Port (CollectConfig opts) = 0 \<longrightarrow>
      parse w opts seen rest = ([Write OsStderr portMsg, Write OsStderr tryText], Exit 2)) \<and>
   (helpOK opts seen \<and> formatOK opts \<and> Port (CollectConfig opts) \<noteq> 0 \<and>
    TimeoutSec (CollectConfig opts) = 0 \<longrightarrow>
      parse w opts seen rest = ([Write OsStderr timeoutMsg, Write OsStderr tryText], Exit 2)) \<and>
   (helpOK opts seen \<and> formatOK opts \<and> Port (CollectConfig opts) \<noteq> 0 \<and>
    TimeoutSec (CollectConfig opts) \<noteq> 0 \<and> LockTimeoutMillisec (CollectConfig opts) = 0 \<longrightarrow>
      parse w opts seen rest =
        ([Write OsStderr lockTimeoutMsg, Write OsStderr tryText], Exit 2)) \<and>
   (length (input opts) > 0 \<and> osOpen w (input opts) = Some err \<longrightarrow>
      loadOrCollect w opts args = ([Write OsStderr (logLine err)], Exit 1)) \<and>
   (length (input opts) > 0 \<and> osOpen w (input opts) = None \<and>
    jsonDecode w (input opts) = Inl err \<longrightarrow>
      loadOrCollect w opts args =
        ([Open (input opts), Write OsStderr (logLine (input opts @ '': '' @ err))], Exit 1)) \<and>
   (\<not> usePager w opts \<and> outPath opts \<noteq> '''' \<and> osCreate w (outPath opts) = Some err \<longrightarrow>
      process w result opts args = ([Write OsStderr (logLine err)], Exit 1)) \<and>
   (usePager w opts \<and> cmdStdinPipe w (lookupPager w) = Some err \<longrightarrow>
      process w result opts args =
        ([Command (lookupPager w), Write OsStderr (logLine err)], Exit 1)) \<and>
   (usePager w opts \<and> cmdStdinPipe w (lookupPager w) = None \<and>
    cmdStart w (lookupPager w) = Some err \<longrightarrow>
      process w result opts args =
        ([Command (lookupPager w), StdinPipe (lookupPager w), Write OsStderr (logLine err)],
         Exit 1)) \<and>
   (format opts = ''json'' \<and> jsonEncode w fd result = Inl err \<longrightarrow>
      writeTo w fd opts result = ([Encode JSON fd, Write OsStderr (logLine err)], Exit 1)) \<and>
   (format opts = ''csv'' \<and> model2csv w fd result = Inl err \<longrightarrow>
      writeTo w fd opts result = ([Encode CSV fd, Write OsStderr (logLine err)], Exit 1)) \<and>
   (format opts \<noteq> ''json'' \<and> format opts \<noteq> ''csv'' \<and>
    writeHumanTo w fd opts result = Inl err \<longrightarrow>
      writeTo w fd opts result = ([Encode Human fd, Write OsStderr (logLine err)], Exit 1)) \<and>
   (usePager w opts \<and> cmdStdinPipe w (lookupPager w) = None \<and>
    cmdStart w (lookupPager w) = None \<and>
    snd (writeTo w (PagerStdin (lookupPager w)) (normalized opts) result) = Exit c \<longrightarrow>
      process w result opts args =
        ([Command (lookupPager w), StdinPipe (lookupPager w), Start (lookupPager w)] @
         fst (writeTo w (PagerStdin (lookupPager w)) (normalized opts) result), Exit 1)) \<and>
   (\<not> usePager w opts \<and> outPath opts \<noteq> '''' \<and> osCreate w (outPath opts) = None \<and>
    snd (writeTo w (FileW (outPath opts)) (normalized opts) result) = Exit c \<longrightarrow>
      process w result opts args =
        ([Create (outPath opts)] @
         fst (writeTo w (FileW (outPath opts)) (normalized opts) result), Exit 1)) \<and>
   (\<not> usePager w opts \<and> outPath opts = '''' \<longrightarrow>
      process w result opts args = writeTo w OsStdout (normalized opts) result) \<and>
   (snd (process w result opts args) = Exit c \<longrightarrow>
      c = 1 \<and> (\<exists>s. last (fst (process w result opts args)) = Write OsStderr (logLine s))) \<and>
   (snd (writeTo w fd opts result) = Exit c \<longrightarrow>
      c = 1 \<and> (\<exists>e s. fst (writeTo w fd opts result) = [Encode e fd, Write OsStderr (logLine s)])) \<and>
   (getopt (defaults (unsetIgnored w)) = Inr (opts0, seen0, rest0) \<longrightarrow>
      (snd (main w getopt) = Exit 2 \<longleftrightarrow>
         snd (parse (unsetIgnored w) opts0 seen0 rest0) = Exit 2) \<and>
      (snd (main w getopt) = Exit 1 \<longrightarrow>
         (\<exists>es opts1 args1.
            parse (unsetIgnored w) opts0 seen0 rest0 = (es, Return (opts1, args1))))) \<and>
   (getopt (defaults (unsetIgnored w)) = Inl gerr \<longrightarrow>
      main w getopt =
        ([Write OsStderr (gerr @ ''\<newline>''), Write OsStderr tryText], Exit 1))"
proof -
  have v: "helpOK opts seen \<and> snd (parse w opts seen rest) = Exit 2 \<longrightarrow>
      (\<exists>d. fst (parse w opts seen rest) = [Write OsStderr d, Write OsStderr tryText])"
    using parse_exit2_diag [of opts seen w rest] by blast
  have l: "length (input opts) > 0 \<and> osOpen w (input opts) = Some err \<longrightarrow>
      loadOrCollect w opts args = ([Write OsStderr (logLine err)], Exit 1)"
    "length (input opts) > 0 \<and> osOpen w (input opts) = None \<and>
     jsonDecode w (input opts) = Inl err \<longrightarrow>
      loadOrCollect w opts args =
        ([Open (input opts), Write OsStderr (logLine (input opts @ '': '' @ err))], Exit 1)"
    using loadOrCollect_open_fails [of opts w err args]
      loadOrCollect_decode_fails [of opts w err args] by blast+
  have r: "\<not> usePager w opts \<and> outPath opts \<noteq> '''' \<and> osCreate w (outPath opts) = Some err \<longrightarrow>
      process w result opts args = ([Write OsStderr (logLine err)], Exit 1)"
    "usePager w opts \<and> cmdStdinPipe w (lookupPager w) = Some err \<longrightarrow>
      process w result opts args =
        ([Command (lookupPager w), Write OsStderr (logLine err)], Exit 1)"
    "usePager w opts \<and> cmdStdinPipe w (lookupPager w) = None \<and>
     cmdStart w (lookupPager w) = Some err \<longrightarrow>
      process w result opts args =
        ([Command (lookupPager w), StdinPipe (lookupPager w), Write OsStderr (logLine err)],
         Exit 1)"
    by (simp_all add: process_create_fails process_pipe_fails process_start_fails)
  have n: "format opts = ''json'' \<and> jsonEncode w fd result = Inl err \<longrightarrow>
      writeTo w fd opts result = ([Encode JSON fd, Write OsStderr (logLine err)], Exit 1)"
    "format opts = ''csv'' \<and> model2csv w fd result = Inl err \<longrightarrow>
      writeTo w fd opts result = ([Encode CSV fd, Write OsStderr (logLine err)], Exit 1)"
    "format opts \<noteq> ''json'' \<and> format opts \<noteq> ''csv'' \<and>
     writeHumanTo w fd opts result = Inl err \<longrightarrow>
      writeTo w fd opts result = ([Encode Human fd, Write OsStderr (logLine err)], Exit 1)"
    by (simp_all add: writeTo_json_fails writeTo_csv_fails writeTo_human_fails)
  have q: "usePager w opts \<and> cmdStdinPipe w (lookupPager w) = None \<and>
    cmdStart w (lookupPager w) = None \<and>
    snd (writeTo w (PagerStdin (lookupPager w)) (normalized opts) result) = Exit c \<longrightarrow>
      process w result opts args =
        ([Command (lookupPager w), StdinPipe (lookupPager w), Start (lookupPager w)] @
         fst (writeTo w (PagerStdin (lookupPager w)) (normalized opts) result), Exit 1)"
    "\<not> usePager w opts \<and> outPath opts \<noteq> '''' \<and> osCreate w (outPath opts) = None \<and>
     snd (writeTo w (FileW (outPath opts)) (normalized opts) result) = Exit c \<longrightarrow>
      process w result opts args =
        ([Create (outPath opts)] @
         fst (writeTo w (FileW (outPath opts)) (normalized opts) result), Exit 1)"
    "\<not> usePager w opts \<and> outPath opts = '''' \<longrightarrow>
      process w result opts args = writeTo w OsStdout (normalized opts) result"
    using process_pager_encode_fails [of w opts result c args]
      process_file_encode_fails [of w opts result c args]
      process_stdout [of w opts result args]
    by blast+
  have p: "snd (process w result opts args) = Exit c \<longrightarrow>
      c = 1 \<and> (\<exists>s. last (fst (process w result opts args)) = Write OsStderr (logLine s))"
    using process_exit [of w result opts args c] process_exit_log [of w result opts args c]
    by blast
  have e: "snd (writeTo w fd opts result) = Exit c \<longrightarrow>
      c = 1 \<and> (\<exists>e s. fst (writeTo w fd opts result) = [Encode e fd, Write OsStderr (logLine s)])"
    using writeTo_exit [of w fd opts result c] writeTo_exit_log [of w fd opts result c]
    by blast
  have m: "getopt (defaults (unsetIgnored w)) = Inr (opts0, seen0, rest0) \<longrightarrow>
      (snd (main w getopt) = Exit 2 \<longleftrightarrow>
         snd (parse (unsetIgnored w) opts0 seen0 rest0) = Exit 2) \<and>
      (snd (main w getopt) = Exit 1 \<longrightarrow>
         (\<exists>es opts1 args1.
            parse (unsetIgnored w) opts0 seen0 rest0 = (es, Return (opts1, args1))))"
    using main_exit [of getopt w opts0 seen0 rest0] by blast
  have g: "getopt (defaults (unsetIgnored w)) = Inl gerr \<longrightarrow>
      main w getopt =
        ([Write OsStderr (gerr @ ''\<newline>''), Write OsStderr tryText], Exit 1)"
    using main_getopt_fails [of getopt w gerr] by blast
  have s: "\<not> helpOK opts seen \<longrightarrow> parse w opts seen rest = ([Write OsStderr tryText], Exit 2)"
    "helpOK opts seen \<and> \<not> formatOK opts \<longrightarrow>
      parse w opts seen rest = ([Write OsStderr formatMsg, Write OsStderr tryText], Exit 2)"
    "helpOK opts seen \<and> formatOK opts \<and> Port (CollectConfig opts) = 0 \<longrightarrow>
      parse w opts seen rest = ([Write OsStderr portMsg, Write OsStderr tryText], Exit 2)"
    "helpOK opts seen \<and> formatOK opts \<and> Port (CollectConfig opts) \<noteq> 0 \<and>
     TimeoutSec (CollectConfig opts) = 0 \<longrightarrow>
      parse w opts seen rest = ([Write OsStderr timeoutMsg, Write OsStderr tryText], Exit 2)"
    "helpOK opts seen \<and> formatOK opts \<and> Port (CollectConfig opts) \<noteq> 0 \<and>
     TimeoutSec (CollectConfig opts) \<noteq> 0 \<and> LockTimeoutMillisec (CollectConfig opts) = 0 \<longrightarrow>
      parse w opts seen rest =
        ([Write OsStderr lockTimeoutMsg, Write OsStderr tryText], Exit 2)"
    by (simp_all add: parse_help_bad parse_format_bad parse_port_bad parse_timeout_bad
        parse_lock_timeout_bad)
  show ?thesis
    by (intro conjI parse_exit2_iff parse_never_exit1 v l r n q p e m g s)
qed

theorem failures_two_tiered_witness:
  "helpOK (exampleOpts\<lparr>CollectConfig := exampleConfig\<lparr>Port := 0\<rparr>\<rparr>) False \<and>
   formatOK (exampleOpts\<lparr>CollectConfig := exampleConfig\<lparr>Port := 0\<rparr>\<rparr>) \<and>
   parse exampleWorld (exampleOpts\<lparr>CollectConfig := exampleConfig\<lparr>Port := 0\<rparr>\<rparr>) False [] =
     ([Write OsStderr ''port must be between 1 and 65535\<newline>'', Write OsStderr tryText],
      Exit 2) \<and>
   loadOrCollect (exampleWorld\<lparr>jsonDecode := (\<lambda>_. Inl ''unexpected end of JSON input'')\<rparr>)
       (exampleOpts\<lparr>input := ''snap.json''\<rparr>) [] =
     ([Open ''snap.json'',
       Write OsStderr ''pgmetrics: snap.json: unexpected end of JSON input\<newline>''], Exit 1) \<and>
   format jsonFileOpts = ''json'' \<and>
   jsonEncode encodeFailsWorld OsStdout exampleModel = Inl ''unsupported value'' \<and>
   writeTo encodeFailsWorld OsStdout jsonFileOpts exampleModel =
     ([Encode JSON OsStdout, Write OsStderr ''pgmetrics: unsupported value\<newline>''], Exit 1) \<and>
   snd (main exampleWorld (\<lambda>d. Inr (d\<lparr>format := ''xml''\<rparr>, False, []))) = Exit 2 \<and>
   main exampleWorld (\<lambda>d. Inl ''unknown option: --colour'') =
     ([Write OsStderr ''unknown option: --colour\<newline>'', Write OsStderr tryText], Exit 1)"
proof -
  let ?p = "exampleOpts\<lparr>CollectConfig := exampleConfig\<lparr>Port := 0\<rparr>\<rparr>"
  let ?w = "exampleWorld\<lparr>jsonDecode := (\<lambda>_. Inl ''unexpected end of JSON input'')\<rparr>"
  let ?i = "exampleOpts\<lparr>input := ''snap.json''\<rparr>"
  let ?x = "exampleOpts\<lparr>format := ''xml''\<rparr>"
  let ?g = "\<lambda>d::options.
      (Inr (d\<lparr>format := ''xml''\<rparr>, False, []) :: string + options \<times> bool \<times> string list)"
  let ?r = "\<lambda>d::options.
      (Inl ''unknown option: --colour'' :: string + options \<times> bool \<times> string list)"
  have u: "unsetIgnored exampleWorld = exampleWorld"
    by (simp add: unsetIgnored_def ignoreEnvs_def exampleWorld_def)
  have d: "defaults exampleWorld = exampleOpts"
    by (simp add: defaults_def example_defs)
  have hp: "helpOK ?p False" "formatOK ?p" "Port (CollectConfig ?p) = 0"
    by (simp_all add: check_defs example_defs)
  have "helpOK ?p False \<and> formatOK ?p \<and> Port (CollectConfig ?p) = 0 \<longrightarrow>
      parse exampleWorld ?p False [] = ([Write OsStderr portMsg, Write OsStderr tryText], Exit 2)"
    using failures_two_tiered [of exampleWorld ?p False "[]" "[]" "[]" exampleModel OsStdout 1
        ?g ?x False "[]" "[]"]
    by (elim conjE) assumption
  with hp have 1: "parse exampleWorld ?p False [] =
      ([Write OsStderr portMsg, Write OsStderr tryText], Exit 2)"
    by simp
  have hi: "length (input ?i) > 0" "osOpen ?w (input ?i) = None"
    "jsonDecode ?w (input ?i) = Inl ''unexpected end of JSON input''"
    by (simp_all add: example_defs)
  have "length (input ?i) > 0 \<and> osOpen ?w (input ?i) = None \<and>
      jsonDecode ?w (input ?i) = Inl ''unexpected end of JSON input'' \<longrightarrow>
      loadOrCollect ?w ?i [] =
        ([Open (input ?i),
          Write OsStderr (logLine (input ?i @ '': '' @ ''unexpected end of JSON input''))], Exit 1)"
    using failures_two_tiered [of ?w ?i False "[]" "''unexpected end of JSON input''" "[]"
        exampleModel OsStdout 1 ?g ?x False "[]" "[]"]
    by (elim conjE) assumption
  with hi have 2: "loadOrCollect ?w ?i [] =
      ([Open (input ?i),
        Write OsStderr (logLine (input ?i @ '': '' @ ''unexpected end of JSON input''))], Exit 1)"
    by simp
  have he: "format jsonFileOpts = ''json''"
    "jsonEncode encodeFailsWorld OsStdout exampleModel = Inl ''unsupported value''"
    by (simp_all add: jsonFileOpts_def encodeFailsWorld_def example_defs)
  have "format jsonFileOpts = ''json'' \<and>
      jsonEncode encodeFailsWorld OsStdout exampleModel = Inl ''unsupported value'' \<longrightarrow>
      writeTo encodeFailsWorld OsStdout jsonFileOpts exampleModel =
        ([Encode JSON OsStdout, Write OsStderr (logLine ''unsupported value'')], Exit 1)"
    using failures_two_tiered [of encodeFailsWorld jsonFileOpts False "[]" "''unsupported value''"
        "[]" exampleModel OsStdout 1 ?g ?x False "[]" "[]"]
    by (elim conjE) assumption
  with he have 3: "writeTo encodeFailsWorld OsStdout jsonFileOpts exampleModel =
      ([Encode JSON OsStdout, Write OsStderr (logLine ''unsupported value'')], Exit 1)"
    by simp
  have px: "snd (parse exampleWorld ?x False []) = Exit 2"
    by (simp add: parse_exit2_iff check_defs example_defs)
  have gx: "?g (defaults (unsetIgnored exampleWorld)) = Inr (?x, False, [])"
    by (simp add: u d)
  have "?g (defaults (unsetIgnored exampleWorld)) = Inr (?x, False, []) \<longrightarrow>
      (snd (main exampleWorld ?g) = Exit 2 \<longleftrightarrow>
         snd (parse (unsetIgnored exampleWorld) ?x False []) = Exit 2) \<and>
      (snd (main exampleWorld ?g) = Exit 1 \<longrightarrow>
         (\<exists>es opts1 args1.
            parse (unsetIgnored exampleWorld) ?x False [] = (es, Return (opts1, args1))))"
    using failures_two_tiered [of exampleWorld ?p False "[]" "[]" "[]" exampleModel OsStdout 1
        ?g ?x False "[]" "[]"]
    by (elim conjE) assumption
  with gx px have 4: "snd (main exampleWorld ?g) = Exit 2"
    by (simp add: u)
  have "?r (defaults (unsetIgnored exampleWorld)) = Inl ''unknown option: --colour'' \<longrightarrow>
      main exampleWorld ?r =
        ([Write OsStderr (''unknown option: --colour'' @ ''\<newline>''), Write OsStderr tryText],
         Exit 1)"
    using failures_two_tiered [of exampleWorld ?p False "[]" "[]" "[]" exampleModel OsStdout 1
        ?r ?x False "[]" "''unknown option: --colour''"]
    by (elim conjE) assumption
  then have 5: "main exampleWorld ?r =
      ([Write OsStderr (''unknown option: --colour'' @ ''\<newline>''), Write OsStderr tryText],
       Exit 1)"
    by simp
  have i: "input ?i = ''snap.json''" by (simp add: example_defs)
  show ?thesis
    using hp(1,2) he 1 2 3 4 5 unfolding i by (simp add: logLine_def portMsg_def)
qed

subsection \<open>C4: the four filter options\<close>

text \<open>
  C4. The check of a filter value passes exactly when the value is empty or compiles as a
  POSIX regular expression. A filter value that is not empty and does not compile ends
  \<open>parse\<close> with status 2. The four filters are checked in the order schema,
  exclude-schema, table, exclude-table, after the checks of help mode, format, port and
  timeouts: the first filter that fails is the one reported, in a message with the name
  of its option and the error of the compiler, followed by the usage hint.
\<close>

theorem filter_regexps_checked_in_order:
  "(getRegexp w r = None \<longleftrightarrow> r = [] \<or> compilePOSIX w r = None) \<and>
   (\<not> regexpsOK w opts \<longrightarrow> snd (parse w opts seen rest) = Exit 2) \<and>
   (basicOK opts seen \<and>
    Schema (CollectConfig opts) \<noteq> [] \<and> compilePOSIX w (Schema (CollectConfig opts)) = Some e \<longrightarrow>
      parse w opts seen rest =
        ([Write OsStderr (''bad POSIX regular expression for -c/--schema: '' @ e @ ''\<newline>''),
          Write OsStderr tryText], Exit 2)) \<and>
   (basicOK opts seen \<and> getRegexp w (Schema (CollectConfig opts)) = None \<and>
    ExclSchema (CollectConfig opts) \<noteq> [] \<and>
    compilePOSIX w (ExclSchema (CollectConfig opts)) = Some e \<longrightarrow>
      parse w opts seen rest =
        ([Write OsStderr
            (''bad POSIX regular expression for -C/--exclude-schema: '' @ e @ ''\<newline>''),
          Write OsStderr tryText], Exit 2)) \<and>
   (basicOK opts seen \<and> getRegexp w (Schema (CollectConfig opts)) = None \<and>
    getRegexp w (ExclSchema (CollectConfig opts)) = None \<and>
    Table (CollectConfig opts) \<noteq> [] \<and> compilePOSIX w (Table (CollectConfig opts)) = Some e \<longrightarrow>
      parse w opts seen rest =
        ([Write OsStderr (''bad POSIX regular expression for -a/--table: '' @ e @ ''\<newline>''),
          Write OsStderr tryText], Exit 2)) \<and>
   (basicOK opts seen \<and> getRegexp w (Schema (CollectConfig opts)) = None \<and>
    getRegexp w (ExclSchema (CollectConfig opts)) = None \<and>
    getRegexp w (Table (CollectConfig opts)) = None \<and>
    ExclTable (CollectConfig opts) \<noteq> [] \<and>
    compilePOSIX w (ExclTable (CollectConfig opts)) = Some e \<longrightarrow>
      parse w opts seen rest =
        ([Write OsStderr
            (''bad POSIX regular expression for -A/--exclude-table: '' @ e @ ''\<newline>''),
          Write OsStderr tryText], Exit 2))"
proof -
  have "\<not> regexpsOK w opts \<longrightarrow> snd (parse w opts seen rest) = Exit 2"
    by (simp add: parse_exit2_iff)
  then show ?thesis
    using getRegexp_None_iff [of w r]
      parse_schema_bad [of opts seen w e rest, unfolded schemaMsg_def]
      parse_exclSchema_bad [of opts seen w e rest, unfolded exclSchemaMsg_def]
      parse_table_bad [of opts seen w e rest, unfolded tableMsg_def]
      parse_exclTable_bad [of opts seen w e rest, unfolded exclTableMsg_def]
      getRegexp_Some [of _ w e]
    by blast
qed

theorem filter_regexps_checked_in_order_witness:
  "basicOK (exampleOpts\<lparr>CollectConfig := exampleConfig\<lparr>Schema := ''('', Table := ''(''\<rparr>\<rparr>) False \<and>
   compilePOSIX exampleWorld ''('' = Some ''missing closing )'' \<and>
   parse exampleWorld (exampleOpts\<lparr>CollectConfig := exampleConfig\<lparr>Schema := ''('', Table := ''(''\<rparr>\<rparr>)
       False [] =
     ([Write OsStderr ''bad POSIX regular expression for -c/--schema: missing closing )\<newline>'',
       Write OsStderr tryText], Exit 2) \<and>
   getRegexp exampleWorld
     (Schema (CollectConfig (exampleOpts\<lparr>CollectConfig := exampleConfig\<lparr>ExclTable := ''(''\<rparr>\<rparr>))) = None \<and>
   parse exampleWorld (exampleOpts\<lparr>CollectConfig := exampleConfig\<lparr>ExclTable := ''(''\<rparr>\<rparr>) False [] =
     ([Write OsStderr
         ''bad POSIX regular expression for -A/--exclude-table: missing closing )\<newline>'',
       Write OsStderr tryText], Exit 2)"
proof -
  let ?o1 = "exampleOpts\<lparr>CollectConfig := exampleConfig\<lparr>Schema := ''('', Table := ''(''\<rparr>\<rparr>"
  let ?o2 = "exampleOpts\<lparr>CollectConfig := exampleConfig\<lparr>ExclTable := ''(''\<rparr>\<rparr>"
  have b1: "basicOK ?o1 False" and b2: "basicOK ?o2 False"
    by (simp_all add: check_defs example_defs)
  have c: "compilePOSIX exampleWorld ''('' = Some ''missing closing )''"
    by (simp add: example_defs)
  have s1: "Schema (CollectConfig ?o1) = ''(''" by (simp add: example_defs)
  have s2: "Schema (CollectConfig ?o2) = []" "ExclSchema (CollectConfig ?o2) = []"
    "Table (CollectConfig ?o2) = []" "ExclTable (CollectConfig ?o2) = ''(''"
    by (simp_all add: example_defs)
  have g: "getRegexp exampleWorld [] = None" by (simp add: getRegexp_def)
  have "parse exampleWorld ?o1 False [] =
     ([Write OsStderr (''bad POSIX regular expression for -c/--schema: '' @ ''missing closing )'' @ ''\<newline>''),
       Write OsStderr tryText], Exit 2)"
    using filter_regexps_checked_in_order [of exampleWorld "[]" ?o1 False "[]" "''missing closing )''"]
      b1 c by (simp only: s1) simp
  moreover have "parse exampleWorld ?o2 False [] =
     ([Write OsStderr (''bad POSIX regular expression for -A/--exclude-table: '' @ ''missing closing )'' @ ''\<newline>''),
       Write OsStderr tryText], Exit 2)"
    using filter_regexps_checked_in_order [of exampleWorld "[]" ?o2 False "[]" "''missing closing )''"]
      b2 c g by (simp only: s2) simp
  ultimately show ?thesis
    using b1 c g s2 by simp
qed

subsection \<open>C5: the omit list\<close>

text \<open>
  C5. The loop over the omit list accepts a list exactly when each of its entries is one of
  the eleven names tables, indexes, sequences, functions, extensions, triggers, statements,
  log, citus, indexdefs and bloat; it accepts the empty list. A list with an entry outside
  these names ends \<open>parse\<close> with status 2, and once the earlier checks have passed the
  message names the first such entry and is followed by the usage hint.
\<close>

theorem omit_entries_checked:
  \<open>(snd (omitLoop oms) = Return () \<longleftrightarrow>
      set oms \<subseteq> {''tables'', ''indexes'', ''sequences'', ''functions'', ''extensions'',
                 ''triggers'', ''statements'', ''log'', ''citus'', ''indexdefs'', ''bloat''}) \<and>
   omitLoop [] = ([], Return ()) \<and>
   (\<not> set (Omit (CollectConfig opts)) \<subseteq> omitVocabulary \<longrightarrow>
      snd (parse w opts seen rest) = Exit 2) \<and>
   (basicOK opts seen \<and> regexpsOK w opts \<and>
    Omit (CollectConfig opts) = pre @ om # post \<and> set pre \<subseteq> omitVocabulary \<and>
    om \<notin> omitVocabulary \<longrightarrow>
      parse w opts seen rest =
        ([Write OsStderr (''unknown item "'' @ om @ ''" in --omit option\<newline>''),
          Write OsStderr tryText], Exit 2))\<close>
proof -
  have "\<not> set (Omit (CollectConfig opts)) \<subseteq> omitVocabulary \<longrightarrow>
      snd (parse w opts seen rest) = Exit 2"
    by (simp add: parse_exit2_iff omitOK_def)
  then show ?thesis
    using omitLoop_accepts [of oms, unfolded omitVocabulary_def]
      parse_omit_bad [of opts seen w pre om post rest, unfolded omitMsg_def]
    by simp
qed

theorem omit_entries_checked_witness:
  \<open>basicOK (exampleOpts\<lparr>CollectConfig := exampleConfig\<lparr>Omit := [''log'', ''views'', ''bloat'', ''x'']\<rparr>\<rparr>)
     False \<and>
   ''log'' \<in> omitVocabulary \<and> ''views'' \<notin> omitVocabulary \<and>
   parse exampleWorld
       (exampleOpts\<lparr>CollectConfig := exampleConfig\<lparr>Omit := [''log'', ''views'', ''bloat'', ''x'']\<rparr>\<rparr>)
       False [] =
     ([Write OsStderr ''unknown item "views" in --omit option\<newline>'',
       Write OsStderr tryText], Exit 2) \<and>
   snd (omitLoop [''tables'', ''bloat'']) = Return ()\<close>
proof -
  let ?o = "exampleOpts\<lparr>CollectConfig := exampleConfig\<lparr>Omit := [''log'', ''views'', ''bloat'', ''x'']\<rparr>\<rparr>"
  have b: "basicOK ?o False" and r: "regexpsOK exampleWorld ?o"
    by (simp_all add: check_defs example_defs)
  have m: "Omit (CollectConfig ?o) = [''log''] @ ''views'' # [''bloat'', ''x'']"
    by (simp add: example_defs)
  have v: "set [''log''] \<subseteq> omitVocabulary" "''views'' \<notin> omitVocabulary"
    by (simp_all add: omitVocabulary_def)
  have "parse exampleWorld ?o False [] =
     ([Write OsStderr (''unknown item \"'' @ ''views'' @ ''\" in --omit option\<newline>''),
       Write OsStderr tryText], Exit 2)"
    using omit_entries_checked [of "[]" ?o exampleWorld False "[]" "[''log'']" "''views''"
        "[''bloat'', ''x'']"] b r m v
    by blast
  moreover have "snd (omitLoop [''tables'', ''bloat'']) = Return ()"
    using omit_entries_checked [of "[''tables'', ''bloat'']" ?o exampleWorld False "[]" "[]" "''x''" "[]"]
    by simp
  ultimately show ?thesis
    using b v by simp
qed

subsection \<open>C6: the query protocol\<close>

text \<open>
  C6. A query protocol other than exactly \<^verbatim>\<open>simple\<close> or \<^verbatim>\<open>extended\<close> ends \<open>parse\<close>
  with status 2, and once the earlier checks have passed the message is the one that
  lists both values, followed by the usage hint. When \<open>parse\<close> returns, the query
  protocol is one of the two values and the flag \<open>UseExtendedQP\<close> of the options value
  it returns is true exactly when the option is \<^verbatim>\<open>extended\<close>.
\<close>

theorem query_proto_checked:
  \<open>(queryProto opts \<noteq> ''simple'' \<and> queryProto opts \<noteq> ''extended'' \<longrightarrow>
      snd (parse w opts seen rest) = Exit 2) \<and>
   (basicOK opts seen \<and> regexpsOK w opts \<and> omitOK opts \<and>
    queryProto opts \<noteq> ''simple'' \<and> queryProto opts \<noteq> ''extended'' \<longrightarrow>
      parse w opts seen rest =
        ([Write OsStderr ''option --query-proto must be "simple" or "extended"\<newline>'',
          Write OsStderr tryText], Exit 2)) \<and>
   (parse w opts seen rest = (es, Return (opts', args)) \<longrightarrow>
      (queryProto opts = ''simple'' \<or> queryProto opts = ''extended'') \<and>
      (UseExtendedQP (CollectConfig opts') \<longleftrightarrow> queryProto opts = ''extended'') \<and>
      queryProto opts' = queryProto opts)\<close>
proof -
  have "queryProto opts \<noteq> ''simple'' \<and> queryProto opts \<noteq> ''extended'' \<longrightarrow>
      snd (parse w opts seen rest) = Exit 2"
    by (simp add: parse_exit2_iff protoOK_def)
  moreover have "basicOK opts seen \<and> regexpsOK w opts \<and> omitOK opts \<and>
    queryProto opts \<noteq> ''simple'' \<and> queryProto opts \<noteq> ''extended'' \<longrightarrow>
      parse w opts seen rest =
        ([Write OsStderr queryProtoMsg, Write OsStderr tryText], Exit 2)"
    by (simp add: parse_after_omit protoOK_def)
  moreover have "parse w opts seen rest = (es, Return (opts', args)) \<longrightarrow>
      (queryProto opts = ''simple'' \<or> queryProto opts = ''extended'') \<and>
      (UseExtendedQP (CollectConfig opts') \<longleftrightarrow> queryProto opts = ''extended'') \<and>
      queryProto opts' = queryProto opts"
    using parse_Return [of w opts seen rest es opts' args]
    by (auto simp: protoOK_def validated_def)
  ultimately show ?thesis
    unfolding queryProtoMsg_def by blast
qed

theorem query_proto_checked_witness:
  \<open>parse exampleWorld (exampleOpts\<lparr>queryProto := ''bogus''\<rparr>) False [] =
     ([Write OsStderr ''option --query-proto must be "simple" or "extended"\<newline>'',
       Write OsStderr tryText], Exit 2) \<and>
   parse exampleWorld (exampleOpts\<lparr>queryProto := ''extended''\<rparr>) False [''db''] =
     ([], Return (exampleOpts\<lparr>queryProto := ''extended'',
                    CollectConfig := exampleConfig\<lparr>UseExtendedQP := True\<rparr>\<rparr>, [''db''])) \<and>
   UseExtendedQP (CollectConfig (exampleOpts\<lparr>queryProto := ''extended'',
                    CollectConfig := exampleConfig\<lparr>UseExtendedQP := True\<rparr>\<rparr>)) \<and>
   parse exampleWorld exampleOpts False [] =
     ([], Return (exampleOpts\<lparr>CollectConfig := exampleConfig\<lparr>UseExtendedQP := False\<rparr>\<rparr>, []))\<close>
proof -
  let ?b = "exampleOpts\<lparr>queryProto := ''bogus''\<rparr>"
  let ?e = "exampleOpts\<lparr>queryProto := ''extended''\<rparr>"
  have ok: "basicOK ?b False" "regexpsOK exampleWorld ?b" "omitOK ?b"
    "queryProto ?b \<noteq> ''simple''" "queryProto ?b \<noteq> ''extended''"
    by (simp_all add: check_defs example_defs)
  have 1: "parse exampleWorld ?b False [] =
     ([Write OsStderr ''option --query-proto must be \"simple\" or \"extended\"\<newline>'',
       Write OsStderr tryText], Exit 2)"
    using query_proto_checked [of ?b exampleWorld False "[]" "[]" ?b "[]"] ok by blast
  have oke: "basicOK ?e False" "regexpsOK exampleWorld ?e" "omitOK ?e" "protoOK ?e"
    "\<not> helpRequested ?e False" "\<not> version ?e"
    by (simp_all add: check_defs example_defs)
  have 2: "parse exampleWorld ?e False [''db''] = ([], Return (validated ?e False, [''db'']))"
    using oke by (simp add: parse_after_omit)
  have oks: "basicOK exampleOpts False" "regexpsOK exampleWorld exampleOpts" "omitOK exampleOpts"
    "protoOK exampleOpts" "\<not> helpRequested exampleOpts False" "\<not> version exampleOpts"
    by (simp_all add: check_defs example_defs)
  have 3: "parse exampleWorld exampleOpts False [] = ([], Return (validated exampleOpts False, []))"
    using oks by (simp add: parse_after_omit)
  have 4: "UseExtendedQP (CollectConfig (validated ?e False))"
    using query_proto_checked [of ?e exampleWorld False "[''db'']" "[]" "validated ?e False" "[''db'']"] 2
    by simp
  have v: "validated ?e False = exampleOpts\<lparr>queryProto := ''extended'',
                    CollectConfig := exampleConfig\<lparr>UseExtendedQP := True\<rparr>\<rparr>"
    "validated exampleOpts False = exampleOpts\<lparr>CollectConfig := exampleConfig\<lparr>UseExtendedQP := False\<rparr>\<rparr>"
    by (simp_all add: validated_def helpMode_def example_defs)
  show ?thesis
    using 1 2 3 4 unfolding v by simp
qed

subsection \<open>C7: closing the pipe and the output file\<close>

text \<open>
  C7, as the claim states it, fails on the code: when the encoder fails, \<^verbatim>\<open>log.Fatal\<close>
  ends the process before the close that follows \<^verbatim>\<open>writeTo\<close>, so the output file, or
  the input pipe of the started pager, is still open.
\<close>

theorem encoder_failure_leaves_resource_open:
  "process encodeFailsWorld exampleModel jsonFileOpts [] =
     ([Create ''out.json'', Encode JSON (FileW ''out.json''),
       Write OsStderr ''pgmetrics: unsupported value\<newline>''], Exit 1) \<and>
   stillOpen [] (fst (process encodeFailsWorld exampleModel jsonFileOpts [])) =
     [FileW ''out.json''] \<and>
   process encodeFailsWorld exampleModel jsonPagerOpts [] =
     ([Command ''less'', StdinPipe ''less'', Start ''less'', Encode JSON (PagerStdin ''less''),
       Write OsStderr ''pgmetrics: unsupported value\<newline>''], Exit 1) \<and>
   stillOpen [] (fst (process encodeFailsWorld exampleModel jsonPagerOpts [])) =
     [PagerStdin ''less'']"
  by (simp add: run_defs example_defs encodeFailsWorld_def jsonFileOpts_def jsonPagerOpts_def)

text \<open>
  C7, amended. On every exit path of \<open>process\<close> other than a failure of the encoder, the
  error paths included on which the pipe cannot be set up, the pager cannot be started or
  the output file cannot be created, the run ends with no pager pipe and no output file
  open; in the pager path the run is the start of the pager, the events of the encoder,
  the close of the pipe and then the wait. A run leaves something open exactly when the
  encoder fails after the pager was started or the file was created: it then ends with
  status 1 and the pipe, or the file, still open.
\<close>

theorem resources_closed_unless_encoder_fails:
  "(stillOpen [] (fst (process w result opts args)) \<noteq> [] \<longleftrightarrow>
      (usePager w opts \<and> cmdStdinPipe w (lookupPager w) = None \<and>
       cmdStart w (lookupPager w) = None \<and>
       snd (writeTo w (PagerStdin (lookupPager w)) (normalized opts) result) \<noteq> Return ()) \<or>
      (\<not> usePager w opts \<and> outPath opts \<noteq> '''' \<and> osCreate w (outPath opts) = None \<and>
       snd (writeTo w (FileW (outPath opts)) (normalized opts) result) \<noteq> Return ())) \<and>
   (usePager w opts \<and> cmdStdinPipe w (lookupPager w) = Some err \<longrightarrow>
      stillOpen [] (fst (process w result opts args)) = []) \<and>
   (usePager w opts \<and> cmdStdinPipe w (lookupPager w) = None \<and>
    cmdStart w (lookupPager w) = Some err \<longrightarrow>
      stillOpen [] (fst (process w result opts args)) = []) \<and>
   (\<not> usePager w opts \<and> outPath opts \<noteq> '''' \<and> osCreate w (outPath opts) = Some err \<longrightarrow>
      stillOpen [] (fst (process w result opts args)) = []) \<and>
   (snd (process w result opts args) = Return () \<longrightarrow>
      stillOpen [] (fst (process w result opts args)) = []) \<and>
   (usePager w opts \<and> snd (process w result opts args) = Return () \<longrightarrow>
      fst (process w result opts args) =
        [Command (lookupPager w), StdinPipe (lookupPager w), Start (lookupPager w)] @
        fst (writeTo w (PagerStdin (lookupPager w)) (normalized opts) result) @
        [Close (PagerStdin (lookupPager w)),
         Wait (lookupPager w) (cmdWait w (lookupPager w))]) \<and>
   (\<not> usePager w opts \<and> outPath opts \<noteq> '''' \<and> snd (process w result opts args) = Return () \<longrightarrow>
      fst (process w result opts args) =
        [Create (outPath opts)] @
        fst (writeTo w (FileW (outPath opts)) (normalized opts) result) @
        [Close (FileW (outPath opts))]) \<and>
   (usePager w opts \<and> cmdStdinPipe w (lookupPager w) = None \<and>
    cmdStart w (lookupPager w) = None \<and>
    snd (writeTo w (PagerStdin (lookupPager w)) (normalized opts) result) = Exit c \<longrightarrow>
      snd (process w result opts args) = Exit 1 \<and>
      stillOpen [] (fst (process w result opts args)) = [PagerStdin (lookupPager w)]) \<and>
   (\<not> usePager w opts \<and> outPath opts \<noteq> '''' \<and> osCreate w (outPath opts) = None \<and>
    snd (writeTo w (FileW (outPath opts)) (normalized opts) result) = Exit c \<longrightarrow>
      snd (process w result opts args) = Exit 1 \<and>
      stillOpen [] (fst (process w result opts args)) = [FileW (outPath opts)]) \<and>
   (snd (process w result opts args) = Exit c \<longrightarrow> c = 1)"
proof -
  have a: "usePager w opts \<and> cmdStdinPipe w (lookupPager w) = Some err \<longrightarrow>
      stillOpen [] (fst (process w result opts args)) = []"
    by (simp add: process_pipe_fails)
  have b: "usePager w opts \<and> cmdStdinPipe w (lookupPager w) = None \<and>
    cmdStart w (lookupPager w) = Some err \<longrightarrow>
      stillOpen [] (fst (process w result opts args)) = []"
    by (simp add: process_start_fails)
  have c: "\<not> usePager w opts \<and> outPath opts \<noteq> '''' \<and> osCreate w (outPath opts) = Some err \<longrightarrow>
      stillOpen [] (fst (process w result opts args)) = []"
    by (simp add: process_create_fails)
  have d: "snd (process w result opts args) = Return () \<longrightarrow>
      stillOpen [] (fst (process w result opts args)) = []"
    using process_stillOpen [of w result opts args] by blast
  have e: "usePager w opts \<and> snd (process w result opts args) = Return () \<longrightarrow>
      fst (process w result opts args) =
        [Command (lookupPager w), StdinPipe (lookupPager w), Start (lookupPager w)] @
        fst (writeTo w (PagerStdin (lookupPager w)) (normalized opts) result) @
        [Close (PagerStdin (lookupPager w)),
         Wait (lookupPager w) (cmdWait w (lookupPager w))]"
    by (auto simp: process_staged fst_bind_run snd_bind_run
        split: option.splits outcome.splits)
  have f: "\<not> usePager w opts \<and> outPath opts \<noteq> '''' \<and>
      snd (process w result opts args) = Return () \<longrightarrow>
      fst (process w result opts args) =
        [Create (outPath opts)] @
        fst (writeTo w (FileW (outPath opts)) (normalized opts) result) @
        [Close (FileW (outPath opts))]"
    by (auto simp: process_staged fst_bind_run snd_bind_run
        split: option.splits outcome.splits)
  have g: "usePager w opts \<and> cmdStdinPipe w (lookupPager w) = None \<and>
    cmdStart w (lookupPager w) = None \<and>
    snd (writeTo w (PagerStdin (lookupPager w)) (normalized opts) result) = Exit c \<longrightarrow>
      snd (process w result opts args) = Exit 1 \<and>
      stillOpen [] (fst (process w result opts args)) = [PagerStdin (lookupPager w)]"
    by (simp add: process_pager_encode_fails stillOpen_append)
  have h: "\<not> usePager w opts \<and> outPath opts \<noteq> '''' \<and> osCreate w (outPath opts) = None \<and>
    snd (writeTo w (FileW (outPath opts)) (normalized opts) result) = Exit c \<longrightarrow>
      snd (process w result opts args) = Exit 1 \<and>
      stillOpen [] (fst (process w result opts args)) = [FileW (outPath opts)]"
    by (simp add: process_file_encode_fails stillOpen_append)
  have i: "snd (process w result opts args) = Exit c \<longrightarrow> c = 1"
    using process_exit [of w result opts args c] by blast
  show ?thesis
    by (intro conjI process_stillOpen_iff a b c d e f g h i)
qed

theorem resources_closed_unless_encoder_fails_witness:
  "snd (process exampleWorld exampleModel exampleOpts []) = Return () \<and>
   usePager exampleWorld exampleOpts \<and>
   stillOpen [] (fst (process exampleWorld exampleModel exampleOpts [])) = [] \<and>
   fst (process exampleWorld exampleModel exampleOpts []) =
     [Command ''less'', StdinPipe ''less'', Start ''less'', Encode Human (PagerStdin ''less''),
      Write (PagerStdin ''less'') ''{}'', Close (PagerStdin ''less''),
      Wait ''less'' (Some ''exit status 1'')] \<and>
   usePager startFailsWorld exampleOpts \<and>
   cmdStdinPipe startFailsWorld (lookupPager startFailsWorld) = None \<and>
   cmdStart startFailsWorld (lookupPager startFailsWorld) = Some ''permission denied'' \<and>
   snd (process startFailsWorld exampleModel exampleOpts []) = Exit 1 \<and>
   stillOpen [] (fst (process startFailsWorld exampleModel exampleOpts [])) = []"
proof -
  have run: "process exampleWorld exampleModel exampleOpts [] =
     ([Command ''less'', StdinPipe ''less'', Start ''less'', Encode Human (PagerStdin ''less''),
       Write (PagerStdin ''less'') ''{}'', Close (PagerStdin ''less''),
       Wait ''less'' (Some ''exit status 1'')], Return ())"
    by (simp add: run_defs example_defs)
  have up: "usePager exampleWorld exampleOpts"
    by (simp add: usePager_def outPath_def run_defs example_defs)
  have 1: "stillOpen [] (fst (process exampleWorld exampleModel exampleOpts [])) = []"
    using resources_closed_unless_encoder_fails
      [of exampleWorld exampleModel exampleOpts "[]" "''x''" 1]
    by (simp add: run)
  have sf: "usePager startFailsWorld exampleOpts"
    "cmdStdinPipe startFailsWorld (lookupPager startFailsWorld) = None"
    "cmdStart startFailsWorld (lookupPager startFailsWorld) = Some ''permission denied''"
    by (simp_all add: usePager_def outPath_def run_defs example_defs startFailsWorld_def)
  have "usePager startFailsWorld exampleOpts \<and>
      cmdStdinPipe startFailsWorld (lookupPager startFailsWorld) = None \<and>
      cmdStart startFailsWorld (lookupPager startFailsWorld) = Some ''permission denied'' \<longrightarrow>
      stillOpen [] (fst (process startFailsWorld exampleModel exampleOpts [])) = []"
    using resources_closed_unless_encoder_fails
      [of startFailsWorld exampleModel exampleOpts "[]" "''permission denied''" 1]
    by (elim conjE) assumption
  with sf have 2: "stillOpen [] (fst (process startFailsWorld exampleModel exampleOpts [])) = []"
    by blast
  have 3: "snd (process startFailsWorld exampleModel exampleOpts []) = Exit 1"
    using sf by (simp add: process_start_fails)
  show ?thesis
    using run up 1 2 3 sf by simp
qed

subsection \<open>C8: failures of the pager path, and the pager's own exit status\<close>

text \<open>
  C8. A failure to set up the input pipe of the pager or to start the pager is fatal: the
  run ends with status 1 after the log line. A failure to create an explicit output file
  is fatal in the same way. The exit status of the pager itself, which \<open>cmdWait\<close>
  gives, does not change the exit status of the tool; when pipe, start and encoder
  succeed the run returns after the wait, whatever the wait gives.
\<close>

theorem pager_status_ignored:
  "(usePager w opts \<and> cmdStdinPipe w (lookupPager w) = Some err \<longrightarrow>
      process w result opts args =
        ([Command (lookupPager w), Write OsStderr (logLine err)], Exit 1)) \<and>
   (usePager w opts \<and> cmdStdinPipe w (lookupPager w) = None \<and>
    cmdStart w (lookupPager w) = Some err \<longrightarrow>
      process w result opts args =
        ([Command (lookupPager w), StdinPipe (lookupPager w), Write OsStderr (logLine err)],
         Exit 1)) \<and>
   (\<not> usePager w opts \<and> outPath opts \<noteq> '''' \<and> osCreate w (outPath opts) = Some err \<longrightarrow>
      process w result opts args = ([Write OsStderr (logLine err)], Exit 1)) \<and>
   exitStatus (process (w\<lparr>cmdWait := f\<rparr>) result opts args) =
     exitStatus (process w result opts args) \<and>
   (usePager w opts \<and> cmdStdinPipe w (lookupPager w) = None \<and>
    cmdStart w (lookupPager w) = None \<and>
    snd (writeTo w (PagerStdin (lookupPager w)) (normalized opts) result) = Return () \<longrightarrow>
      (\<exists>es. process w result opts args =
         (es @ [Wait (lookupPager w) (cmdWait w (lookupPager w))], Return ())))"
  by (simp add: process_staged exitStatus_def snd_bind_run fst_bind_run
      split: option.split outcome.split)

theorem pager_status_ignored_witness:
  "usePager exampleWorld exampleOpts \<and>
   cmdWait exampleWorld (lookupPager exampleWorld) = Some ''exit status 1'' \<and>
   exitStatus (process exampleWorld exampleModel exampleOpts []) = 0 \<and>
   exitStatus (process (exampleWorld\<lparr>cmdWait := (\<lambda>_. None)\<rparr>) exampleModel exampleOpts []) = 0 \<and>
   process (exampleWorld\<lparr>cmdStdinPipe := (\<lambda>_. Some ''too many open files'')\<rparr>) exampleModel
       exampleOpts [] =
     ([Command ''less'', Write OsStderr ''pgmetrics: too many open files\<newline>''], Exit 1) \<and>
   process (exampleWorld\<lparr>cmdStart := (\<lambda>_. Some ''permission denied'')\<rparr>) exampleModel
       exampleOpts [] =
     ([Command ''less'', StdinPipe ''less'', Write OsStderr ''pgmetrics: permission denied\<newline>''],
      Exit 1) \<and>
   process (exampleWorld\<lparr>osCreate := (\<lambda>_. Some ''open /x/out: no such file or directory'')\<rparr>)
       exampleModel (exampleOpts\<lparr>output_opt := ''/x/out''\<rparr>) [] =
     ([Write OsStderr ''pgmetrics: open /x/out: no such file or directory\<newline>''], Exit 1)"
  using pager_status_ignored [of exampleWorld exampleOpts "''x''" exampleModel "[]" "\<lambda>_. None"]
    pager_status_ignored [of "exampleWorld\<lparr>cmdStdinPipe := (\<lambda>_. Some ''too many open files'')\<rparr>"
       exampleOpts "''too many open files''" exampleModel "[]" "\<lambda>_. None"]
  by (simp add: run_defs example_defs usePager_def outPath_def exitStatus_def)

subsection \<open>C9: an output path of a single dash\<close>

text \<open>
  C9. With all other options equal, a run of \<open>process\<close> with the explicit output path
  \<^verbatim>\<open>-\<close> is the run with no explicit output path: the same events on the same
  destination (standard output, file or pager) and the same end.
\<close>

theorem output_dash_is_no_output:
  "process w result (opts\<lparr>output_opt := ''-''\<rparr>) args =
   process w result (opts\<lparr>output_opt := ''''\<rparr>) args"
  by (simp add: process_def Let_def)

theorem output_dash_is_no_output_witness:
  "process exampleWorld exampleModel (exampleOpts\<lparr>output_opt := ''-''\<rparr>) [] =
   process exampleWorld exampleModel (exampleOpts\<lparr>output_opt := ''''\<rparr>) [] \<and>
   process exampleWorld exampleModel (exampleOpts\<lparr>output_opt := ''''\<rparr>) [] =
     ([Command ''less'', StdinPipe ''less'', Start ''less'', Encode Human (PagerStdin ''less''),
       Write (PagerStdin ''less'') ''{}'', Close (PagerStdin ''less''),
       Wait ''less'' (Some ''exit status 1'')], Return ())"
  using output_dash_is_no_output [of exampleWorld exampleModel exampleOpts "[]"]
  by (simp add: run_defs example_defs)

subsection \<open>C10: the human renderer is the default branch of \<open>writeTo\<close>\<close>

text \<open>
  C10. For every format string other than exactly \<^verbatim>\<open>json\<close> and exactly \<^verbatim>\<open>csv\<close>, also
  one that no validation has seen, \<open>writeTo\<close> is the call of the human encoder, and
  whatever the format, exactly one encoder runs in one call of \<open>writeTo\<close>.
\<close>

theorem writeTo_default_human:
  "(format opts \<noteq> ''json'' \<and> format opts \<noteq> ''csv'' \<longrightarrow>
      writeTo w fd opts r = callWriteHumanTo w fd opts r \<and>
      encodersRun (fst (writeTo w fd opts r)) = [Human]) \<and>
   length (encodersRun (fst (writeTo w fd opts r))) = 1"
  by (simp add: writeTo_encoders) (simp add: writeTo_def)

theorem writeTo_default_human_witness:
  "format (exampleOpts\<lparr>format := ''xml''\<rparr>) \<noteq> ''json'' \<and>
   format (exampleOpts\<lparr>format := ''xml''\<rparr>) \<noteq> ''csv'' \<and>
   encodersRun (fst (writeTo exampleWorld OsStdout (exampleOpts\<lparr>format := ''xml''\<rparr>) exampleModel))
     = [Human] \<and>
   writeTo exampleWorld OsStdout (exampleOpts\<lparr>format := ''xml''\<rparr>) exampleModel
     = ([Encode Human OsStdout, Write OsStdout ''{}''], Return ())"
  using writeTo_default_human [of "exampleOpts\<lparr>format := ''xml''\<rparr>" exampleWorld OsStdout exampleModel]
  by (simp add: example_defs callWriteHumanTo_def)

end
